theory Spec2Isabelle
  imports Main
begin

section \<open>Python strings\<close>

text \<open>
  A Python \<open>str\<close> is a sequence of Unicode code points. A code point is a natural
  number here, so that text outside Latin-1 (which the sanitizer exists to remove) is a
  value of the model. \<open>ascii\<close> turns a literal of the theory into such a sequence.
\<close>

type_synonym pystr = "nat list"

definition ascii :: "string \<Rightarrow> pystr" where
  "ascii s = map of_char s"

text \<open>\<open>str(n)\<close> for an integer: decimal digits, a leading minus sign when negative.\<close>

fun nat_digits :: "nat \<Rightarrow> pystr" where
  "nat_digits n = (if n < 10 then [48 + n] else nat_digits (n div 10) @ [48 + n mod 10])"

declare nat_digits.simps [simp del]

definition int_str :: "int \<Rightarrow> pystr" where
  "int_str i = (if i < 0 then 45 # nat_digits (nat (- i)) else nat_digits (nat i))"

text \<open>\<open>"%02d"\<close> and \<open>"%04d"\<close>: decimal digits, padded with zeros on the left.\<close>

definition zero_pad :: "nat \<Rightarrow> nat \<Rightarrow> pystr" where
  "zero_pad w n = replicate (w - length (nat_digits n)) 48 @ nat_digits n"

section \<open>Values, columns and frames\<close>

text \<open>
  A float is not computed with anywhere in the program: it is parsed, stored, rounded and
  printed. The model keeps three kinds of float: not-a-number, the float whose value is the
  integer \<open>n\<close> with \<open>|n| \<le> 2^53\<close> (printed \<open>n.0\<close>), and any other float, which stands
  for itself through the text that is printed for it (\<open>repr\<close> of a 64-bit float; for a
  cell of a 32-bit column, the text of the 32-bit float).
\<close>

datatype float64 = NaN | FInt int | FOther pystr

text \<open>A point in time, down to the nanosecond within the second.\<close>

datatype timestamp =
  Timestamp (year: nat) (month: nat) (day: nat) (hour: nat) (minute: nat) (second: nat)
    (nanosecond: nat)

text \<open>The Python objects a cell can hold.\<close>

datatype pyobj =
    PyNone
  | PyStr pystr
  | PyBool bool
  | PyInt int
  | PyFloat float64
  | PyDate nat nat nat
  | PyTimestamp timestamp
  | PyNaT
  | PyOther pystr

text \<open>
  A pandas column (a \<open>Series\<close>) has one dtype for all its cells: \<open>object\<close> (any Python
  object: text, \<open>None\<close>, dates, decimals), \<open>bool\<close>, a signed integer dtype (8 to 64 bits
  wide), a float dtype (32 or 64 bits wide; a null is \<open>NaN\<close>) or \<open>datetime64\<close> (a null is
  \<open>NaT\<close>). What the database returns has 64-bit integers and floats.
\<close>

datatype int_width = I8 | I16 | I32 | I64

datatype width = W32 | W64

datatype column =
    ObjectCol "pyobj list"
  | BoolCol "bool list"
  | IntCol int_width "int list"
  | FloatCol width "float64 list"
  | DatetimeCol "timestamp option list"

text \<open>
  A \<open>DataFrame\<close>: the length of its index and its labelled columns, in order. The frames
  the program handles come from \<open>SELECT *\<close> on one table: their labels are distinct and
  every column is as long as the index.
\<close>

record dataframe =
  nrows :: nat
  columns :: "(pystr \<times> column) list"

definition column_names :: "dataframe \<Rightarrow> pystr list" where
  "column_names df = map fst (columns df)"

definition unique_labels :: "dataframe \<Rightarrow> bool" where
  "unique_labels df = distinct (column_names df)"

text \<open>\<open>df[name]\<close> read: the column with that label (\<open>None\<close> stands for \<open>KeyError\<close>).\<close>

definition getitem :: "dataframe \<Rightarrow> pystr \<Rightarrow> column option" where
  "getitem df name = map_of (columns df) name"

text \<open>
  \<open>df[name] = c\<close>: replaces the column with that label where it stands, or appends a new
  column when the label is new.
\<close>

definition setitem :: "dataframe \<Rightarrow> pystr \<Rightarrow> column \<Rightarrow> dataframe" where
  "setitem df name c =
     (if name \<in> set (column_names df)
      then df\<lparr>columns := map (\<lambda>(n, old). if n = name then (n, c) else (n, old)) (columns df)\<rparr>
      else df\<lparr>columns := columns df @ [(name, c)]\<rparr>)"

text \<open>\<open>df[name] = f(df[name])\<close> for a label of the frame.\<close>

definition assign :: "pystr \<Rightarrow> (column \<Rightarrow> column) \<Rightarrow> dataframe \<Rightarrow> dataframe" where
  "assign name f df = (case getitem df name of None \<Rightarrow> df | Some c \<Rightarrow> setitem df name (f c))"

text \<open>The cells of a column as Python objects (what iterating the column yields).\<close>

fun boxed :: "column \<Rightarrow> pyobj list" where
  "boxed (ObjectCol xs) = xs"
| "boxed (BoolCol bs) = map PyBool bs"
| "boxed (IntCol w ns) = map PyInt ns"
| "boxed (FloatCol w xs) = map PyFloat xs"
| "boxed (DatetimeCol ts) = map (\<lambda>t. case t of None \<Rightarrow> PyNaT | Some t \<Rightarrow> PyTimestamp t) ts"

section \<open>Text of a value: \<open>astype(str)\<close>\<close>

definition date_text :: "nat \<Rightarrow> nat \<Rightarrow> nat \<Rightarrow> pystr" where
  "date_text y m d = zero_pad 4 y @ [45] @ zero_pad 2 m @ [45] @ zero_pad 2 d"

definition time_text :: "nat \<Rightarrow> nat \<Rightarrow> nat \<Rightarrow> pystr" where
  "time_text h mi s = zero_pad 2 h @ [58] @ zero_pad 2 mi @ [58] @ zero_pad 2 s"

text \<open>\<open>strftime("%Y-%m-%d")\<close> and \<open>strftime("%Y-%m-%d %H:%M:%S")\<close>.\<close>

definition strftime_date :: "timestamp \<Rightarrow> pystr" where
  "strftime_date t = date_text (year t) (month t) (day t)"

definition strftime_timestamp :: "timestamp \<Rightarrow> pystr" where
  "strftime_timestamp t =
     date_text (year t) (month t) (day t) @ [32] @ time_text (hour t) (minute t) (second t)"

text \<open>
  \<open>str\<close> of a timestamp object: the date and the time, then the fraction of the second
  when there is one, in six digits or in nine.
\<close>

definition fraction_text :: "nat \<Rightarrow> pystr" where
  "fraction_text ns =
     (if ns = 0 then []
      else if ns mod 1000 = 0 then [46] @ zero_pad 6 (ns div 1000)
      else [46] @ zero_pad 9 ns)"

fun float_str :: "float64 \<Rightarrow> pystr" where
  "float_str NaN = ascii ''nan''"
| "float_str (FInt n) = int_str n @ ascii ''.0''"
| "float_str (FOther s) = s"

text \<open>
  \<open>str(x)\<close>. \<open>None\<close> becomes the text \<open>None\<close> and a missing float the text \<open>nan\<close>:
  \<open>astype(str)\<close> converts nulls like every other cell (pandas 1 and 2, where text
  columns have the dtype \<open>object\<close>).
\<close>

fun py_str :: "pyobj \<Rightarrow> pystr" where
  "py_str PyNone = ascii ''None''"
| "py_str (PyStr s) = s"
| "py_str (PyBool b) = (if b then ascii ''True'' else ascii ''False'')"
| "py_str (PyInt n) = int_str n"
| "py_str (PyFloat x) = float_str x"
| "py_str (PyDate y m d) = date_text y m d"
| "py_str (PyTimestamp t) = strftime_timestamp t @ fraction_text (nanosecond t)"
| "py_str PyNaT = ascii ''NaT''"
| "py_str (PyOther s) = s"

text \<open>
  \<open>astype(str)\<close> on a \<open>datetime64\<close> column picks one layout for the column: the date alone
  when every cell is at midnight, else the date and the time, with as many digits of the
  second's fraction (none, three, six or nine) as the finest cell needs. \<open>NaT\<close> is written
  \<open>NaT\<close>.
\<close>

definition at_midnight :: "timestamp \<Rightarrow> bool" where
  "at_midnight t = (hour t = 0 \<and> minute t = 0 \<and> second t = 0 \<and> nanosecond t = 0)"

definition column_fraction :: "timestamp list \<Rightarrow> nat \<Rightarrow> pystr" where
  "column_fraction ts ns =
     (if list_all (\<lambda>t. nanosecond t = 0) ts then []
      else if list_all (\<lambda>t. nanosecond t mod 1000000 = 0) ts then [46] @ zero_pad 3 (ns div 1000000)
      else if list_all (\<lambda>t. nanosecond t mod 1000 = 0) ts then [46] @ zero_pad 6 (ns div 1000)
      else [46] @ zero_pad 9 ns)"

definition datetime_text :: "timestamp list \<Rightarrow> timestamp option \<Rightarrow> pystr" where
  "datetime_text ts r =
     (case r of
        None \<Rightarrow> ascii ''NaT''
      | Some t \<Rightarrow>
          nat_digits (year t) @ [45] @ zero_pad 2 (month t) @ [45] @ zero_pad 2 (day t)
          @ (if list_all at_midnight ts then []
             else [32] @ time_text (hour t) (minute t) (second t)
                  @ column_fraction ts (nanosecond t)))"

fun str_cells :: "column \<Rightarrow> pystr list" where
  "str_cells (DatetimeCol rs) = map (datetime_text (List.map_filter id rs)) rs"
| "str_cells c = map py_str (boxed c)"

definition astype_str :: "column \<Rightarrow> column" where
  "astype_str c = ObjectCol (map PyStr (str_cells c))"

section \<open>Sanitizer: \<open>clean_dataframe\<close>\<close>

text \<open>\<open>df.select_dtypes(include=["object", "bool"]).columns\<close>\<close>

fun is_object_or_bool :: "column \<Rightarrow> bool" where
  "is_object_or_bool (ObjectCol xs) = True"
| "is_object_or_bool (BoolCol bs) = True"
| "is_object_or_bool c = False"

definition select_dtypes_object_bool :: "dataframe \<Rightarrow> pystr list" where
  "select_dtypes_object_bool df = map fst (filter (\<lambda>(n, c). is_object_or_bool c) (columns df))"

text \<open>\<open>.str.replace(r"[\r\n\t]", " ", regex=True)\<close> on one string.\<close>

definition replace_whitespace :: "pystr \<Rightarrow> pystr" where
  "replace_whitespace s = map (\<lambda>c. if c = 13 \<or> c = 10 \<or> c = 9 then 32 else c) s"

text \<open>
  \<open>.str.replace(r"[^\x20-\x7E\<dots>]", "", regex=True)\<close> on one string: the class keeps
  U+0020 to U+007E and the six letters U+00E1, U+00E9, U+00ED, U+00F3, U+00FA, U+00F1.
\<close>

definition allowed_char :: "nat \<Rightarrow> bool" where
  "allowed_char c = ((32 \<le> c \<and> c \<le> 126) \<or> c = 225 \<or> c = 233 \<or> c = 237 \<or> c = 243
     \<or> c = 250 \<or> c = 241)"

definition remove_disallowed :: "pystr \<Rightarrow> pystr" where
  "remove_disallowed s = filter allowed_char s"

text \<open>The \<open>.str\<close> methods act on the strings of an object column.\<close>

fun str_map :: "(pystr \<Rightarrow> pystr) \<Rightarrow> pyobj \<Rightarrow> pyobj" where
  "str_map f (PyStr s) = PyStr (f s)"
| "str_map f x = x"

fun str_replace :: "(pystr \<Rightarrow> pystr) \<Rightarrow> column \<Rightarrow> column" where
  "str_replace f (ObjectCol xs) = ObjectCol (map (str_map f) xs)"
| "str_replace f c = c"

definition clean_series :: "column \<Rightarrow> column" where
  "clean_series c = str_replace remove_disallowed (str_replace replace_whitespace (astype_str c))"

definition clean_dataframe :: "dataframe \<Rightarrow> dataframe" where
  "clean_dataframe df =
     fold (\<lambda>col d. assign col clean_series d) (select_dtypes_object_bool df) df"


section \<open>TypeCaster: \<open>cast_types\<close>\<close>

subsection \<open>What the libraries decide\<close>

text \<open>
  pandas (version 2) accepts far more numeric and date text than the program ever writes,
  and it rounds floats. The model fixes what pandas does on canonical text (a plain decimal
  integer, an ISO date or date-time) and on the values the program itself produces, and
  takes the rest as a parameter: every theorem below holds for every kernel.
  \<^item> \<open>parse_number\<close>: the number read from text that is not a plain integer in the 64-bit
    range (\<open>"1.5"\<close>, \<open>" 7"\<close>, \<open>"1e3"\<close>), \<open>None\<close> when pandas cannot read it;
  \<^item> \<open>object_number\<close>: the number read from an object that is no text, integer, float,
    boolean or \<open>None\<close> (a \<open>Decimal\<close>);
  \<^item> \<open>float_of_int\<close>: the 64-bit float that an integer beyond \<open>2^53\<close> rounds to;
  \<^item> \<open>near_int\<close>: the integer part of a float that is not \<open>FInt\<close>, when the float is within
    \<open>1e-8\<close> of it (the float is a cell of a column of the given width);
  \<^item> \<open>single\<close>: the 32-bit float that a 64-bit float rounds to, when the two differ by at
    most \<open>5e-4\<close>;
  \<^item> \<open>widen\<close>: the 64-bit float equal to a 32-bit float that is not \<open>FInt\<close>;
  \<^item> \<open>epoch_ns\<close>: the nanoseconds since 1970 of a timestamp;
  \<^item> \<open>to_timestamp\<close>: the timestamp read from a cell that the model does not read itself
    (\<open>"01/02/2024"\<close>, an integer), given the cells of its column; \<open>None\<close> when pandas
    cannot read it.
\<close>

datatype number = NInt int | NFloat float64 | NBool bool

record kernel =
  parse_number :: "pystr \<Rightarrow> number option"
  object_number :: "pyobj \<Rightarrow> number option"
  float_of_int :: "int \<Rightarrow> float64"
  near_int :: "width \<Rightarrow> pystr \<Rightarrow> int option"
  single :: "float64 \<Rightarrow> float64 option"
  widen :: "pystr \<Rightarrow> float64"
  epoch_ns :: "timestamp \<Rightarrow> int"
  to_timestamp :: "pyobj list \<Rightarrow> pyobj \<Rightarrow> timestamp option"

text \<open>
  The kernel of the examples: it reads canonical text only. The examples never consult its
  other fields.
\<close>

definition strict_kernel :: kernel where
  "strict_kernel = \<lparr>parse_number = (\<lambda>s. None), object_number = (\<lambda>x. None),
     float_of_int = (\<lambda>n. FOther (int_str n @ ascii ''.0'')),
     near_int = (\<lambda>w s. None), single = (\<lambda>x. None), widen = (\<lambda>s. FOther s),
     epoch_ns = (\<lambda>t. 0), to_timestamp = (\<lambda>xs x. None)\<rparr>"

text \<open>An integer as a 64-bit float: itself up to \<open>2^53\<close>, rounded beyond.\<close>

definition to_float :: "kernel \<Rightarrow> int \<Rightarrow> float64" where
  "to_float k n = (if \<bar>n\<bar> \<le> 2 ^ 53 then FInt n else float_of_int k n)"

subsection \<open>Reading decimal digits\<close>

definition is_digit :: "nat \<Rightarrow> bool" where
  "is_digit c = (48 \<le> c \<and> c \<le> 57)"

definition digits_value :: "pystr \<Rightarrow> nat" where
  "digits_value ds = foldl (\<lambda>a c. 10 * a + (c - 48)) 0 ds"

definition read_digits :: "pystr \<Rightarrow> nat option" where
  "read_digits ds = (if ds \<noteq> [] \<and> list_all is_digit ds then Some (digits_value ds) else None)"

text \<open>A plain decimal integer: digits, after an optional minus sign.\<close>

fun parse_int_literal :: "pystr \<Rightarrow> int option" where
  "parse_int_literal [] = None"
| "parse_int_literal (c # cs) =
     (if c = 45 then map_option (\<lambda>n. - int n) (read_digits cs)
      else map_option int (read_digits (c # cs)))"

text \<open>The integers of each signed integer dtype, and the bytes of each dtype.\<close>

fun fits_int :: "int_width \<Rightarrow> int \<Rightarrow> bool" where
  "fits_int I8 n = (- (2 ^ 7) \<le> n \<and> n < 2 ^ 7)"
| "fits_int I16 n = (- (2 ^ 15) \<le> n \<and> n < 2 ^ 15)"
| "fits_int I32 n = (- (2 ^ 31) \<le> n \<and> n < 2 ^ 31)"
| "fits_int I64 n = (- (2 ^ 63) \<le> n \<and> n < 2 ^ 63)"

fun int_size :: "int_width \<Rightarrow> nat" where
  "int_size I8 = 1"
| "int_size I16 = 2"
| "int_size I32 = 4"
| "int_size I64 = 8"

fun float_size :: "width \<Rightarrow> nat" where
  "float_size W32 = 4"
| "float_size W64 = 8"

subsection \<open>\<open>pd.to_numeric(series, errors="coerce", downcast=\<dots>)\<close>\<close>

text \<open>
  One cell of an object column as a number; \<open>None\<close> is a cell that \<open>errors="coerce"\<close>
  turns into \<open>NaN\<close>.
\<close>

fun numeric_cell :: "kernel \<Rightarrow> pyobj \<Rightarrow> number option" where
  "numeric_cell k PyNone = None"
| "numeric_cell k (PyStr s) =
     (case parse_int_literal s of
        Some n \<Rightarrow> if fits_int I64 n then Some (NInt n) else parse_number k s
      | None \<Rightarrow> parse_number k s)"
| "numeric_cell k (PyBool b) = Some (NBool b)"
| "numeric_cell k (PyInt n) = (if fits_int I64 n then Some (NInt n) else object_number k (PyInt n))"
| "numeric_cell k (PyFloat x) = Some (NFloat x)"
| "numeric_cell k x = object_number k x"

fun is_int_number :: "number option \<Rightarrow> bool" where
  "is_int_number (Some (NInt n)) = fits_int I64 n"
| "is_int_number x = False"

fun is_bool_number :: "number option \<Rightarrow> bool" where
  "is_bool_number (Some (NBool b)) = True"
| "is_bool_number x = False"

definition is_float_number :: "number option \<Rightarrow> bool" where
  "is_float_number r = (\<not> is_int_number r \<and> \<not> is_bool_number r)"

fun number_bool :: "number option \<Rightarrow> bool" where
  "number_bool (Some (NBool b)) = b"
| "number_bool x = False"

fun number_int :: "number option \<Rightarrow> int" where
  "number_int (Some (NInt n)) = n"
| "number_int (Some (NBool b)) = (if b then 1 else 0)"
| "number_int x = 0"

fun number_float :: "kernel \<Rightarrow> number option \<Rightarrow> float64" where
  "number_float k None = NaN"
| "number_float k (Some (NInt n)) = to_float k n"
| "number_float k (Some (NFloat x)) = x"
| "number_float k (Some (NBool b)) = FInt (if b then 1 else 0)"

text \<open>
  The numeric array of a column. Numeric and boolean columns are taken as they are; a
  \<open>datetime64\<close> column is read as its 64-bit integers (\<open>NaT\<close> is the least of them). An
  object column becomes a 64-bit float column as soon as one cell is a float, is null or
  could not be read; else a 64-bit integer column as soon as one cell is an integer
  (booleans then count as 1 and 0); else, when it holds booleans only, a boolean column.
\<close>

fun numeric_values :: "kernel \<Rightarrow> column \<Rightarrow> column" where
  "numeric_values k (ObjectCol xs) =
     (let rs = map (numeric_cell k) xs
      in if list_ex is_float_number rs then FloatCol W64 (map (number_float k) rs)
         else if list_ex is_int_number rs then IntCol I64 (map number_int rs)
         else if list_ex is_bool_number rs then BoolCol (map number_bool rs)
         else IntCol I64 [])"
| "numeric_values k (DatetimeCol ts) =
     IntCol I64 (map (\<lambda>t. case t of None \<Rightarrow> - (2 ^ 63) | Some t \<Rightarrow> epoch_ns k t) ts)"
| "numeric_values k c = c"

text \<open>
  \<open>downcast="integer"\<close> tries the integer dtypes from the narrowest to the widest, none
  wider than the column, and takes the first that holds every cell. A float column is
  downcast only when every cell is (within \<open>1e-8\<close> of) an integer: one \<open>NaN\<close> keeps the
  whole column a float column. A boolean column stays boolean, unless it is empty.
\<close>

definition narrowest :: "nat \<Rightarrow> int list \<Rightarrow> int_width option" where
  "narrowest bytes ns =
     find (\<lambda>w. int_size w \<le> bytes \<and> list_all (fits_int w) ns) [I8, I16, I32, I64]"

fun integral :: "kernel \<Rightarrow> width \<Rightarrow> float64 \<Rightarrow> int option" where
  "integral k w NaN = None"
| "integral k w (FInt n) = Some n"
| "integral k w (FOther s) = near_int k w s"

fun downcast_integer :: "kernel \<Rightarrow> column \<Rightarrow> column" where
  "downcast_integer k (IntCol w ns) =
     (case narrowest (int_size w) ns of
        Some w' \<Rightarrow> IntCol w' ns
      | None \<Rightarrow> IntCol w ns)"
| "downcast_integer k (FloatCol w xs) =
     (case those (map (integral k w) xs) of
        Some ns \<Rightarrow>
          (case narrowest (float_size w) ns of
             Some w' \<Rightarrow> IntCol w' ns
           | None \<Rightarrow> FloatCol w xs)
      | None \<Rightarrow> FloatCol w xs)"
| "downcast_integer k (BoolCol bs) = (if bs = [] then IntCol I8 [] else BoolCol bs)"
| "downcast_integer k c = c"

text \<open>
  \<open>downcast="float"\<close> tries the 32-bit float dtype and then the 64-bit one, neither wider
  than the column, and takes the first whose values are close to the cells. \<open>NaN\<close> and the
  integers up to \<open>2^24\<close> are their own 32-bit rounding. So a 64-bit integer column becomes
  a float column, of 32 bits when every cell is close to its 32-bit rounding; a 32-bit
  integer column becomes a 32-bit float column or stays; narrower integer columns and
  boolean columns stay.
\<close>

fun single_cell :: "kernel \<Rightarrow> float64 \<Rightarrow> float64 option" where
  "single_cell k NaN = Some NaN"
| "single_cell k (FInt n) = (if \<bar>n\<bar> \<le> 2 ^ 24 then Some (FInt n) else single k (FInt n))"
| "single_cell k (FOther s) = single k (FOther s)"

fun downcast_float :: "kernel \<Rightarrow> column \<Rightarrow> column" where
  "downcast_float k (FloatCol W64 xs) =
     (case those (map (single_cell k) xs) of
        Some ys \<Rightarrow> FloatCol W32 ys
      | None \<Rightarrow> FloatCol W64 xs)"
| "downcast_float k (IntCol I64 ns) =
     (case those (map (\<lambda>n. single_cell k (to_float k n)) ns) of
        Some ys \<Rightarrow> FloatCol W32 ys
      | None \<Rightarrow> FloatCol W64 (map (to_float k) ns))"
| "downcast_float k (IntCol I32 ns) =
     (case those (map (\<lambda>n. single_cell k (to_float k n)) ns) of
        Some ys \<Rightarrow> FloatCol W32 ys
      | None \<Rightarrow> IntCol I32 ns)"
| "downcast_float k c = c"

definition to_numeric_integer :: "kernel \<Rightarrow> column \<Rightarrow> column" where
  "to_numeric_integer k c = downcast_integer k (numeric_values k c)"

definition to_numeric_float :: "kernel \<Rightarrow> column \<Rightarrow> column" where
  "to_numeric_float k c = downcast_float k (numeric_values k c)"

subsection \<open>\<open>pd.to_datetime(series, errors="coerce").dt.strftime(\<dots>)\<close>\<close>

definition is_leap :: "nat \<Rightarrow> bool" where
  "is_leap y = (y mod 4 = 0 \<and> (y mod 100 \<noteq> 0 \<or> y mod 400 = 0))"

definition days_in_month :: "nat \<Rightarrow> nat \<Rightarrow> nat" where
  "days_in_month y m =
     (if m = 2 then (if is_leap y then 29 else 28)
      else if m = 4 \<or> m = 6 \<or> m = 9 \<or> m = 11 then 30 else 31)"

text \<open>A point in time of the calendar.\<close>

definition calendar_time :: "timestamp \<Rightarrow> bool" where
  "calendar_time t =
     (1 \<le> year t \<and> 1 \<le> month t \<and> month t \<le> 12
      \<and> 1 \<le> day t \<and> day t \<le> days_in_month (year t) (month t)
      \<and> hour t < 24 \<and> minute t < 60 \<and> second t < 60 \<and> nanosecond t < 1000000000)"

text \<open>
  A timestamp of pandas counts nanoseconds in 64 bits: it lies between
  1677-09-21 00:12:43.145224193 and 2262-04-11 23:47:16.854775807. \<open>ts_key\<close> orders the
  seconds of the calendar.
\<close>

definition ts_key :: "timestamp \<Rightarrow> nat" where
  "ts_key t = ((((year t * 100 + month t) * 100 + day t) * 100 + hour t) * 100 + minute t) * 100
     + second t"

definition valid_timestamp :: "timestamp \<Rightarrow> bool" where
  "valid_timestamp t =
     (calendar_time t
      \<and> (16770921001243 < ts_key t \<or> (ts_key t = 16770921001243 \<and> 145224193 \<le> nanosecond t))
      \<and> (ts_key t < 22620411234716 \<or> (ts_key t = 22620411234716 \<and> nanosecond t \<le> 854775807)))"

text \<open>\<open>errors="coerce"\<close>: what is no timestamp of pandas becomes \<open>NaT\<close>.\<close>

definition checked :: "timestamp option \<Rightarrow> timestamp option" where
  "checked r = (case r of None \<Rightarrow> None | Some t \<Rightarrow> if valid_timestamp t then Some t else None)"

text \<open>
  ISO text of a point in time of the calendar, in one of three layouts: \<open>YYYY-MM-DD\<close>
  alone, or followed by a space or by a \<open>T\<close> and \<open>HH:MM:SS\<close>.
\<close>

datatype layout = DateLayout | SpaceLayout | TLayout

definition read_field :: "pystr \<Rightarrow> nat \<Rightarrow> nat \<Rightarrow> nat option" where
  "read_field s i n = read_digits (take n (drop i s))"

definition parse_iso :: "pystr \<Rightarrow> (layout \<times> timestamp) option" where
  "parse_iso s =
     (if length s = 10 \<and> s ! 4 = 45 \<and> s ! 7 = 45 then
        (case (read_field s 0 4, read_field s 5 2, read_field s 8 2) of
           (Some y, Some m, Some d) \<Rightarrow>
             if calendar_time (Timestamp y m d 0 0 0 0)
             then Some (DateLayout, Timestamp y m d 0 0 0 0) else None
         | _ \<Rightarrow> None)
      else if length s = 19 \<and> s ! 4 = 45 \<and> s ! 7 = 45 \<and> (s ! 10 = 32 \<or> s ! 10 = 84)
              \<and> s ! 13 = 58 \<and> s ! 16 = 58 then
        (case (read_field s 0 4, read_field s 5 2, read_field s 8 2,
               read_field s 11 2, read_field s 14 2, read_field s 17 2) of
           (Some y, Some m, Some d, Some h, Some mi, Some sec) \<Rightarrow>
             if calendar_time (Timestamp y m d h mi sec 0)
             then Some (if s ! 10 = 32 then SpaceLayout else TLayout, Timestamp y m d h mi sec 0)
             else None
         | _ \<Rightarrow> None)
      else None)"

text \<open>
  pandas looks at the first cell of the column that is not null. When that cell is text,
  pandas guesses one format from it and reads every text of the column with that format:
  after ISO text of one layout, ISO text of another layout is not read (\<open>Inferred\<close>). When
  it is text the model does not read, the format is the kernel's matter (\<open>Unknown\<close>). When
  it is no text, each cell is read on its own (\<open>PerCell\<close>).
\<close>

fun null_cell :: "pyobj \<Rightarrow> bool" where
  "null_cell PyNone = True"
| "null_cell PyNaT = True"
| "null_cell (PyFloat NaN) = True"
| "null_cell x = False"

definition first_non_null :: "pyobj list \<Rightarrow> pyobj option" where
  "first_non_null xs = find (\<lambda>x. \<not> null_cell x) xs"

datatype reading = Inferred layout | Unknown | PerCell

fun reading_of :: "pyobj option \<Rightarrow> reading" where
  "reading_of (Some (PyStr s)) =
     (case parse_iso s of Some (l, t) \<Rightarrow> Inferred l | None \<Rightarrow> Unknown)"
| "reading_of x = PerCell"

text \<open>
  One cell as a timestamp, given the cells of its column and the way the column is read.
  Date and timestamp objects are taken as they are.
\<close>

fun datetime_cell :: "kernel \<Rightarrow> pyobj list \<Rightarrow> reading \<Rightarrow> pyobj \<Rightarrow> timestamp option" where
  "datetime_cell k xs r PyNone = None"
| "datetime_cell k xs r PyNaT = None"
| "datetime_cell k xs r (PyFloat NaN) = None"
| "datetime_cell k xs r (PyTimestamp t) = checked (Some t)"
| "datetime_cell k xs r (PyDate y m d) = checked (Some (Timestamp y m d 0 0 0 0))"
| "datetime_cell k xs (Inferred l) (PyStr s) =
     (case parse_iso s of
        Some (l', t) \<Rightarrow> if l' = l then checked (Some t) else None
      | None \<Rightarrow> checked (to_timestamp k xs (PyStr s)))"
| "datetime_cell k xs PerCell (PyStr s) =
     (case parse_iso s of
        Some (l', t) \<Rightarrow> checked (Some t)
      | None \<Rightarrow> checked (to_timestamp k xs (PyStr s)))"
| "datetime_cell k xs Unknown (PyStr s) = checked (to_timestamp k xs (PyStr s))"
| "datetime_cell k xs r x = checked (to_timestamp k xs x)"

fun to_datetime :: "kernel \<Rightarrow> column \<Rightarrow> timestamp option list" where
  "to_datetime k (DatetimeCol ts) = map checked ts"
| "to_datetime k c =
     map (datetime_cell k (boxed c) (reading_of (first_non_null (boxed c)))) (boxed c)"

text \<open>\<open>.dt.strftime(fmt)\<close>: an object column of text, with \<open>NaN\<close> where the value is \<open>NaT\<close>.\<close>

definition dt_strftime :: "(timestamp \<Rightarrow> pystr) \<Rightarrow> timestamp option list \<Rightarrow> column" where
  "dt_strftime fmt ts =
     ObjectCol (map (\<lambda>t. case t of None \<Rightarrow> PyFloat NaN | Some t \<Rightarrow> PyStr (fmt t)) ts)"

subsection \<open>The loop over the schema\<close>

record column_schema =
  Name :: pystr
  Type :: pystr

definition cast_series :: "kernel \<Rightarrow> pystr \<Rightarrow> column \<Rightarrow> column" where
  "cast_series k typ c =
     (if typ = ascii ''bigint'' then to_numeric_integer k c
      else if typ = ascii ''double'' then to_numeric_float k c
      else if typ = ascii ''int'' then to_numeric_integer k c
      else if typ = ascii ''date'' then dt_strftime strftime_date (to_datetime k c)
      else if typ = ascii ''timestamp'' then dt_strftime strftime_timestamp (to_datetime k c)
      else astype_str c)"

definition cast_types :: "kernel \<Rightarrow> dataframe \<Rightarrow> column_schema list \<Rightarrow> dataframe" where
  "cast_types k df schema =
     fold (\<lambda>col d. if Name col \<notin> set (column_names d) then d
                    else assign (Name col) (cast_series k (Type col)) d) schema df"

section \<open>Serializer: \<open>export_to_ndjson\<close>\<close>

text \<open>
  Every exception the model raises is an \<open>Exception\<close> of Python, which \<open>except Exception\<close>
  catches: \<open>TypeError\<close> from \<open>json.dumps\<close>, \<open>KeyError\<close> from a dictionary, and the errors of
  the libraries and the operating system, told apart by their message.
\<close>

datatype exn = TypeError | KeyError | FileNotFoundError | LibraryError pystr

subsection \<open>\<open>df.iterrows()\<close> and \<open>row.to_dict()\<close>\<close>

fun is_int_col :: "column \<Rightarrow> bool" where
  "is_int_col (IntCol w ns) = True"
| "is_int_col c = False"

fun is_float_col :: "column \<Rightarrow> bool" where
  "is_float_col (FloatCol w xs) = True"
| "is_float_col c = False"

text \<open>
  A row is a \<open>Series\<close> over the columns, with one dtype: when every column is an integer or a
  float column and one of them is a float column, that dtype is a float one and the integers
  of the row become floats. In every other mix the row holds the cells as they are.
\<close>

definition float_rows :: "dataframe \<Rightarrow> bool" where
  "float_rows df =
     (list_all (\<lambda>(n, c). is_int_col c \<or> is_float_col c) (columns df)
      \<and> list_ex (\<lambda>(n, c). is_float_col c) (columns df))"

fun as_float :: "kernel \<Rightarrow> pyobj \<Rightarrow> pyobj" where
  "as_float k (PyInt n) = PyFloat (to_float k n)"
| "as_float k x = x"

text \<open>
  The cell of a column in row \<open>i\<close>. Every column of a frame is as long as the index, so the
  second branch is never taken on a frame of pandas.
\<close>

definition cell :: "column \<Rightarrow> nat \<Rightarrow> pyobj" where
  "cell c i = (if i < length (boxed c) then boxed c ! i else PyFloat NaN)"

text \<open>
  In a row a cell is a Python object: a 32-bit float is the 64-bit float of the same
  value.
\<close>

fun widened :: "kernel \<Rightarrow> pyobj \<Rightarrow> pyobj" where
  "widened k (PyFloat (FOther s)) = PyFloat (widen k s)"
| "widened k x = x"

fun row_cell :: "kernel \<Rightarrow> column \<Rightarrow> nat \<Rightarrow> pyobj" where
  "row_cell k (FloatCol W32 xs) i = widened k (cell (FloatCol W32 xs) i)"
| "row_cell k c i = cell c i"

definition row_items :: "kernel \<Rightarrow> dataframe \<Rightarrow> nat \<Rightarrow> (pystr \<times> pyobj) list" where
  "row_items k df i =
     map (\<lambda>(n, c). (n, if float_rows df then as_float k (row_cell k c i) else row_cell k c i))
       (columns df)"

text \<open>A \<open>dict\<close> keeps each key once, where it was first inserted, with its last value.\<close>

definition dict_set :: "(pystr \<times> pyobj) list \<Rightarrow> pystr \<Rightarrow> pyobj \<Rightarrow> (pystr \<times> pyobj) list" where
  "dict_set d key v =
     (if key \<in> fst ` set d then map (\<lambda>(k, old). if k = key then (k, v) else (k, old)) d
      else d @ [(key, v)])"

definition to_dict :: "(pystr \<times> pyobj) list \<Rightarrow> (pystr \<times> pyobj) list" where
  "to_dict items = fold (\<lambda>(k, v) d. dict_set d k v) items []"

subsection \<open>\<open>json.dumps(d, ensure_ascii=False)\<close>\<close>

definition hex_digit :: "nat \<Rightarrow> nat" where
  "hex_digit n = (if n < 10 then 48 + n else 87 + n)"

text \<open>
  Inside a string the quote, the backslash and the control characters are escaped; with
  \<open>ensure_ascii=False\<close> every other character is written as it is.
\<close>

definition escape_char :: "nat \<Rightarrow> pystr" where
  "escape_char c =
     (if c = 34 then [92, 34]
      else if c = 92 then [92, 92]
      else if c = 10 then [92, 110]
      else if c = 13 then [92, 114]
      else if c = 9 then [92, 116]
      else if c = 8 then [92, 98]
      else if c = 12 then [92, 102]
      else if c < 32 then [92, 117, 48, 48, hex_digit (c div 16), hex_digit (c mod 16)]
      else [c])"

definition json_string :: "pystr \<Rightarrow> pystr" where
  "json_string s = [34] @ concat (map escape_char s) @ [34]"

text \<open>
  \<open>allow_nan\<close> is left at its default: a missing float is written \<open>NaN\<close> and the infinite
  floats \<open>Infinity\<close> and \<open>-Infinity\<close>.
\<close>

fun json_float :: "float64 \<Rightarrow> pystr" where
  "json_float NaN = ascii ''NaN''"
| "json_float (FInt n) = int_str n @ ascii ''.0''"
| "json_float (FOther s) =
     (if s = ascii ''inf'' then ascii ''Infinity''
      else if s = ascii ''-inf'' then ascii ''-Infinity'' else s)"

text \<open>No \<open>default=\<close> is given: a date, a timestamp or any other object raises \<open>TypeError\<close>.\<close>

fun json_value :: "pyobj \<Rightarrow> exn + pystr" where
  "json_value PyNone = Inr (ascii ''null'')"
| "json_value (PyBool b) = Inr (if b then ascii ''true'' else ascii ''false'')"
| "json_value (PyInt n) = Inr (int_str n)"
| "json_value (PyFloat x) = Inr (json_float x)"
| "json_value (PyStr s) = Inr (json_string s)"
| "json_value x = Inl TypeError"

fun json_items :: "(pystr \<times> pyobj) list \<Rightarrow> exn + pystr list" where
  "json_items [] = Inr []"
| "json_items ((k, v) # kvs) =
     (case json_value v of
        Inl e \<Rightarrow> Inl e
      | Inr t \<Rightarrow>
          (case json_items kvs of
             Inl e \<Rightarrow> Inl e
           | Inr ts \<Rightarrow> Inr ((json_string k @ ascii '': '' @ t) # ts)))"

fun join :: "pystr \<Rightarrow> pystr list \<Rightarrow> pystr" where
  "join sep [] = []"
| "join sep [x] = x"
| "join sep (x # y # ys) = x @ sep @ join sep (y # ys)"

definition json_dumps :: "(pystr \<times> pyobj) list \<Rightarrow> exn + pystr" where
  "json_dumps d =
     (case json_items d of
        Inl e \<Rightarrow> Inl e
      | Inr ts \<Rightarrow> Inr (ascii ''{'' @ join (ascii '', '') ts @ ascii ''}''))"

subsection \<open>The loop that writes the file\<close>

definition render_rows :: "kernel \<Rightarrow> dataframe \<Rightarrow> (exn + pystr) list" where
  "render_rows k df = map (\<lambda>i. json_dumps (to_dict (row_items k df i))) [0..<nrows df]"

text \<open>
  Rows are rendered and written one by one. When a row raises, the rows before it are
  already in the file: the result is the exception, if any, and the lines written.
\<close>

fun write_rows :: "(exn + pystr) list \<Rightarrow> pystr list \<Rightarrow> exn option \<times> pystr list" where
  "write_rows [] written = (None, written)"
| "write_rows (Inl e # rs) written = (Some e, written)"
| "write_rows (Inr line # rs) written = write_rows rs (written @ [line])"

definition export_lines :: "kernel \<Rightarrow> dataframe \<Rightarrow> exn option \<times> pystr list" where
  "export_lines k df = write_rows (render_rows k df) []"

text \<open>The text of the file: each line followed by a newline.\<close>

definition file_text :: "pystr list \<Rightarrow> pystr" where
  "file_text ls = concat (map (\<lambda>l. l @ [10]) ls)"

section \<open>The world of a run\<close>

text \<open>
  What the program reports on the console, without the layout of the messages.
\<close>

datatype event =
    Exporting pystr
  | Uploaded pystr pystr
  | UploadError pystr exn
  | EmptyTable pystr
  | TableError pystr exn
  | CleaningBucket
  | BucketCleaned
  | BucketEmpty
  | BucketError exn

text \<open>The local files, the objects of the bucket and the console.\<close>

record world =
  files :: "pystr \<rightharpoonup> pystr"
  bucket :: "pystr \<rightharpoonup> pystr"
  console :: "event list"

text \<open>The calls of the pipeline of one table that can raise in a library.\<close>

datatype call = CleanDataframe | CastTypes | OpenFile | Boto3Client | UploadFile | OsRemove

text \<open>
  What lies outside the program:
  \<^item> \<open>lib\<close>: the kernel of pandas;
  \<^item> \<open>database\<close>: what \<open>obtener_datos_tabla("public", table)\<close> returns or raises;
  \<^item> \<open>fault\<close>: \<open>fault table c = Some e\<close> when call \<open>c\<close> raises \<open>e\<close> while that table is
    processed;
  \<^item> \<open>now\<close>: \<open>datetime.now()\<close> when the table is published;
  \<^item> \<open>list_objects\<close>: the keys \<open>list_objects_v2\<close> returns for the bucket (one page), or
    what it raises (so does the construction of the client before it);
  \<^item> \<open>delete_fault\<close>: what \<open>delete_object\<close> raises for a key, if anything.
\<close>

record env =
  lib :: kernel
  database :: "pystr \<Rightarrow> exn + dataframe"
  fault :: "pystr \<Rightarrow> call \<Rightarrow> exn option"
  now :: "pystr \<Rightarrow> timestamp"
  list_objects :: "(pystr \<rightharpoonup> pystr) \<Rightarrow> exn + pystr list"
  delete_fault :: "pystr \<Rightarrow> exn option"

definition print :: "event \<Rightarrow> world \<Rightarrow> world" where
  "print e w = w\<lparr>console := console w @ [e]\<rparr>"

section \<open>The catalog\<close>

definition TABLES :: "(pystr \<times> pystr) list" where
  "TABLES = [(ascii ''dashboard_data'', ascii ''dashboard_data/''),
             (ascii ''dashboard_published_data'', ascii ''dashboard_published_data/'')]"

definition SCHEMAS :: "(pystr \<times> column_schema list) list" where
  "SCHEMAS =
     [(ascii ''dashboard_data'',
       [\<lparr>Name = ascii ''id'', Type = ascii ''bigint''\<rparr>,
        \<lparr>Name = ascii ''admin_id'', Type = ascii ''bigint''\<rparr>,
        \<lparr>Name = ascii ''date_posted'', Type = ascii ''date''\<rparr>,
        \<lparr>Name = ascii ''engagement'', Type = ascii ''double''\<rparr>,
        \<lparr>Name = ascii ''likes'', Type = ascii ''int''\<rparr>,
        \<lparr>Name = ascii ''post_id'', Type = ascii ''string''\<rparr>,
        \<lparr>Name = ascii ''posturl'', Type = ascii ''string''\<rparr>,
        \<lparr>Name = ascii ''used_hash_tag'', Type = ascii ''string''\<rparr>,
        \<lparr>Name = ascii ''username_tiktok_account'', Type = ascii ''string''\<rparr>,
        \<lparr>Name = ascii ''views'', Type = ascii ''int''\<rparr>,
        \<lparr>Name = ascii ''publication_id'', Type = ascii ''bigint''\<rparr>]),
      (ascii ''dashboard_published_data'',
       [\<lparr>Name = ascii ''id'', Type = ascii ''bigint''\<rparr>])]"

text \<open>\<open>SCHEMAS.get(table, [])\<close>\<close>

definition schema_of :: "(pystr \<times> column_schema list) list \<Rightarrow> pystr \<Rightarrow> column_schema list" where
  "schema_of schemas table = (case map_of schemas table of None \<Rightarrow> [] | Some s \<Rightarrow> s)"

section \<open>StorageSync: \<open>subir_a_s3_json\<close> and \<open>limpiar_bucket\<close>\<close>

text \<open>\<open>strftime("%Y%m%d_%H%M%S")\<close>\<close>

definition strftime_compact :: "timestamp \<Rightarrow> pystr" where
  "strftime_compact t =
     zero_pad 4 (year t) @ zero_pad 2 (month t) @ zero_pad 2 (day t) @ [95]
     @ zero_pad 2 (hour t) @ zero_pad 2 (minute t) @ zero_pad 2 (second t)"

definition s3_key :: "pystr \<Rightarrow> pystr \<Rightarrow> timestamp \<Rightarrow> pystr" where
  "s3_key folder table_name t =
     folder @ table_name @ ascii ''_'' @ strftime_compact t @ ascii ''.json''"

text \<open>
  The client is made and the key computed before the \<open>try\<close>: an exception there leaves the
  function. The upload is inside it: an exception there is reported and the function
  returns. An upload of a file that does not exist raises inside the \<open>try\<close> as well.
\<close>

definition subir_a_s3_json ::
  "env \<Rightarrow> (pystr \<times> pystr) list \<Rightarrow> pystr \<Rightarrow> pystr \<Rightarrow> world \<Rightarrow> exn option \<times> world" where
  "subir_a_s3_json E tables filename table_name w =
     (case fault E table_name Boto3Client of
        Some e \<Rightarrow> (Some e, w)
      | None \<Rightarrow>
          (case map_of tables table_name of
             None \<Rightarrow> (Some KeyError, w)
           | Some folder \<Rightarrow>
               (let key = s3_key folder table_name (now E table_name)
                in case fault E table_name UploadFile of
                     Some e \<Rightarrow> (None, print (UploadError table_name e) w)
                   | None \<Rightarrow>
                       (case files w filename of
                          None \<Rightarrow> (None, print (UploadError table_name FileNotFoundError) w)
                        | Some text \<Rightarrow>
                            (None, print (Uploaded table_name key)
                                     (w\<lparr>bucket := (bucket w)(key \<mapsto> text)\<rparr>))))))"

text \<open>\<open>key.endswith(".json")\<close>\<close>

definition endswith :: "pystr \<Rightarrow> pystr \<Rightarrow> bool" where
  "endswith s suffix = (length suffix \<le> length s \<and> drop (length s - length suffix) s = suffix)"

text \<open>
  The loop over the listed objects: an exception of \<open>delete_object\<close> ends it, the objects
  after it stay.
\<close>

fun delete_json :: "env \<Rightarrow> pystr list \<Rightarrow> world \<Rightarrow> exn option \<times> world" where
  "delete_json E [] w = (None, w)"
| "delete_json E (key # keys) w =
     (if endswith key (ascii ''.json'') then
        (case delete_fault E key of
           Some e \<Rightarrow> (Some e, w)
         | None \<Rightarrow> delete_json E keys (w\<lparr>bucket := (bucket w)(key := None)\<rparr>))
      else delete_json E keys w)"

definition limpiar_bucket :: "env \<Rightarrow> world \<Rightarrow> world" where
  "limpiar_bucket E w0 =
     (let w = print CleaningBucket w0
      in case list_objects E (bucket w) of
           Inl e \<Rightarrow> print (BucketError e) w
         | Inr keys \<Rightarrow>
             if keys \<noteq> [] then
               (case delete_json E keys w of
                  (Some e, w') \<Rightarrow> print (BucketError e) w'
                | (None, w') \<Rightarrow> print BucketCleaned w')
             else print BucketEmpty w)"

section \<open>Orchestrator: \<open>main\<close>\<close>

text \<open>\<open>df.empty\<close>: no row or no column.\<close>

definition empty_frame :: "dataframe \<Rightarrow> bool" where
  "empty_frame df = (nrows df = 0 \<or> columns df = [])"

text \<open>
  \<open>open(filename, "w")\<close> creates or truncates the file; the lines written before an
  exception stay in it.
\<close>

definition export_to_ndjson :: "env \<Rightarrow> pystr \<Rightarrow> dataframe \<Rightarrow> pystr \<Rightarrow> world \<Rightarrow> exn option \<times> world" where
  "export_to_ndjson E table df filename w =
     (case fault E table OpenFile of
        Some e \<Rightarrow> (Some e, w)
      | None \<Rightarrow>
          (case export_lines (lib E) df of
             (err, written) \<Rightarrow> (err, w\<lparr>files := (files w)(filename \<mapsto> file_text written)\<rparr>)))"

text \<open>\<open>os.remove(filename)\<close>\<close>

definition os_remove :: "env \<Rightarrow> pystr \<Rightarrow> pystr \<Rightarrow> world \<Rightarrow> exn option \<times> world" where
  "os_remove E table filename w =
     (case fault E table OsRemove of
        Some e \<Rightarrow> (Some e, w)
      | None \<Rightarrow>
          (case files w filename of
             None \<Rightarrow> (Some FileNotFoundError, w)
           | Some text \<Rightarrow> (None, w\<lparr>files := (files w)(filename := None)\<rparr>)))"

text \<open>
  The body of the \<open>try\<close> of one table: the exception that leaves it, if any, and the world
  it leaves behind.
\<close>

definition table_body ::
  "env \<Rightarrow> (pystr \<times> pystr) list \<Rightarrow> (pystr \<times> column_schema list) list \<Rightarrow> pystr
   \<Rightarrow> world \<Rightarrow> exn option \<times> world" where
  "table_body E tables schemas table w0 =
     (let w = print (Exporting table) w0
      in case database E table of
           Inl e \<Rightarrow> (Some e, w)
         | Inr df \<Rightarrow>
             if \<not> empty_frame df then
               (case fault E table CleanDataframe of
                  Some e \<Rightarrow> (Some e, w)
                | None \<Rightarrow>
                    (let df1 = clean_dataframe df
                     in case fault E table CastTypes of
                          Some e \<Rightarrow> (Some e, w)
                        | None \<Rightarrow>
                            (let df2 = cast_types (lib E) df1 (schema_of schemas table);
                                 filename = table @ ascii ''.json''
                             in case export_to_ndjson E table df2 filename w of
                                  (Some e, w1) \<Rightarrow> (Some e, w1)
                                | (None, w1) \<Rightarrow>
                                    (case subir_a_s3_json E tables filename table w1 of
                                       (Some e, w2) \<Rightarrow> (Some e, w2)
                                     | (None, w2) \<Rightarrow> os_remove E table filename w2))))
             else (None, print (EmptyTable table) w))"

text \<open>One turn of the loop: the \<open>try\<close> with its \<open>except Exception\<close>.\<close>

definition export_table ::
  "env \<Rightarrow> (pystr \<times> pystr) list \<Rightarrow> (pystr \<times> column_schema list) list \<Rightarrow> pystr
   \<Rightarrow> world \<Rightarrow> world" where
  "export_table E tables schemas table w =
     (case table_body E tables schemas table w of
        (Some e, w') \<Rightarrow> print (TableError table e) w'
      | (None, w') \<Rightarrow> w')"

text \<open>\<open>for table, folder in TABLES.items()\<close>\<close>

fun export_tables ::
  "env \<Rightarrow> (pystr \<times> pystr) list \<Rightarrow> (pystr \<times> column_schema list) list
   \<Rightarrow> (pystr \<times> pystr) list \<Rightarrow> world \<Rightarrow> world" where
  "export_tables E tables schemas [] w = w"
| "export_tables E tables schemas ((table, folder) # rest) w =
     export_tables E tables schemas rest (export_table E tables schemas table w)"

text \<open>
  A run over any catalog, and the run of the program: the bucket is cleared once, then the
  tables are exported in the order of the catalog.
\<close>

definition run :: "(pystr \<times> pystr) list \<Rightarrow> (pystr \<times> column_schema list) list \<Rightarrow> env \<Rightarrow> world \<Rightarrow> world" where
  "run tables schemas E w = export_tables E tables schemas tables (limpiar_bucket E w)"

definition main :: "env \<Rightarrow> world \<Rightarrow> world" where
  "main E w = run TABLES SCHEMAS E w"

section \<open>Frames as objects\<close>





section \<open>Frames and environments of the examples\<close>

text \<open>A frame with a text column, a boolean column and two numeric columns.\<close>

definition sample_frame :: dataframe where
  "sample_frame =
     \<lparr>nrows = 2,
      columns = [(ascii ''id'', IntCol I64 [1, 2]),
                 (ascii ''post_id'', ObjectCol [PyStr [97, 9, 98, 128512, 241], PyNone]),
                 (ascii ''active'', BoolCol [True, False]),
                 (ascii ''engagement'', FloatCol W64 [NaN, FInt 3])]\<rparr>"

text \<open>A frame whose only cell is a null of a text column.\<close>

definition null_frame :: dataframe where
  "null_frame = \<lparr>nrows = 1, columns = [(ascii ''post_id'', ObjectCol [PyNone])]\<rparr>"

text \<open>The frame and the schema of the scenario of the specification.\<close>

definition scenario_frame :: dataframe where
  "scenario_frame =
     \<lparr>nrows = 2,
      columns = [(ascii ''id'', ObjectCol [PyStr (ascii ''1''), PyStr (ascii ''x'')]),
                 (ascii ''views'', ObjectCol [PyStr (ascii ''10''), PyStr (ascii ''20'')]),
                 (ascii ''date_posted'',
                  ObjectCol [PyStr (ascii ''2024-01-01''), PyStr (ascii ''bad'')])]\<rparr>"

definition scenario_schema :: "column_schema list" where
  "scenario_schema =
     [\<lparr>Name = ascii ''id'', Type = ascii ''bigint''\<rparr>,
      \<lparr>Name = ascii ''views'', Type = ascii ''int''\<rparr>,
      \<lparr>Name = ascii ''date_posted'', Type = ascii ''date''\<rparr>]"

text \<open>The rule of each column a schema names.\<close>

definition rules :: "kernel \<Rightarrow> column_schema list \<Rightarrow> (pystr \<times> (column \<Rightarrow> column)) list" where
  "rules k schema = map (\<lambda>col. (Name col, cast_series k (Type col))) schema"

text \<open>The frame of the scenario with its unparsable id replaced by a parsable one.\<close>

definition parsable_id_frame :: dataframe where
  "parsable_id_frame =
     \<lparr>nrows = 2,
      columns = [(ascii ''id'', ObjectCol [PyStr (ascii ''1''), PyStr (ascii ''2'')]),
                 (ascii ''views'', ObjectCol [PyStr (ascii ''10''), PyStr (ascii ''20'')]),
                 (ascii ''date_posted'',
                  ObjectCol [PyStr (ascii ''2024-01-01''), PyStr (ascii ''bad'')])]\<rparr>"

text \<open>
  A frame with a null in a float column and a text column, and a frame with a
  \<open>datetime64\<close> column.
\<close>

definition nan_frame :: dataframe where
  "nan_frame =
     \<lparr>nrows = 1,
      columns = [(ascii ''likes'', FloatCol W64 [NaN]),
                 (ascii ''post_id'', ObjectCol [PyStr (ascii ''a'')])]\<rparr>"

definition timestamp_frame :: dataframe where
  "timestamp_frame =
     \<lparr>nrows = 1,
      columns = [(ascii ''id'', IntCol I64 [1]),
                 (ascii ''created_at'', DatetimeCol [Some (Timestamp 2024 1 1 10 0 0 0)])]\<rparr>"

section \<open>Reading back what a cast wrote\<close>

text \<open>
  The text that a cast writes for a timestamp names its day (\<open>date\<close>) or its whole second
  (\<open>timestamp\<close>). A second cast reads the midnight of that day, or that whole second: a
  point in time that pandas can hold or not.
\<close>

definition midnight :: "timestamp \<Rightarrow> timestamp" where
  "midnight t = Timestamp (year t) (month t) (day t) 0 0 0 0"

definition whole_second :: "timestamp \<Rightarrow> timestamp" where
  "whole_second t = Timestamp (year t) (month t) (day t) (hour t) (minute t) (second t) 0"

definition rereadable :: "pystr \<Rightarrow> timestamp \<Rightarrow> bool" where
  "rereadable typ t =
     (if typ = ascii ''date'' then valid_timestamp (midnight t)
      else if typ = ascii ''timestamp'' then valid_timestamp (whole_second t)
      else True)"

text \<open>
  No cell of a column that the schema declares \<open>date\<close> is read as a time of 1677-09-21, the
  first day of pandas, whose midnight pandas cannot hold; no cell of a column declared
  \<open>timestamp\<close> is read as a time before 1677-09-21 00:12:44, within the first second of
  pandas.
\<close>

definition recast_safe :: "kernel \<Rightarrow> dataframe \<Rightarrow> column_schema list \<Rightarrow> bool" where
  "recast_safe k df schema =
     list_all (\<lambda>col. case getitem df (Name col) of
                        None \<Rightarrow> True
                      | Some c \<Rightarrow>
                          list_all (\<lambda>r. case r of None \<Rightarrow> True | Some t \<Rightarrow> rereadable (Type col) t)
                            (to_datetime k c))
       schema"

text \<open>A frame whose only cell is a time of the first day of pandas, and its schema.\<close>

definition boundary_frame :: dataframe where
  "boundary_frame =
     \<lparr>nrows = 1,
      columns = [(ascii ''date_posted'', ObjectCol [PyStr (ascii ''1677-09-21 12:00:00'')])]\<rparr>"

definition boundary_schema :: "column_schema list" where
  "boundary_schema = [\<lparr>Name = ascii ''date_posted'', Type = ascii ''date''\<rparr>]"

section \<open>The timestamp of a key, as the specification words it\<close>

text \<open>
  The timestamp of the specification, \<open>YYYYMMDD_HHMMSS\<close>, written out digit by digit: four
  digits of the year, two of the month and of the day, an underscore, two digits each of
  the hour, the minute and the second.
\<close>

definition two_digits_of :: "nat \<Rightarrow> pystr" where
  "two_digits_of n = [48 + n div 10 mod 10, 48 + n mod 10]"

definition four_digits_of :: "nat \<Rightarrow> pystr" where
  "four_digits_of n =
     [48 + n div 1000 mod 10, 48 + n div 100 mod 10, 48 + n div 10 mod 10, 48 + n mod 10]"

definition spec_stamp :: "timestamp \<Rightarrow> pystr" where
  "spec_stamp t =
     four_digits_of (year t) @ two_digits_of (month t) @ two_digits_of (day t) @ ascii ''_''
     @ two_digits_of (hour t) @ two_digits_of (minute t) @ two_digits_of (second t)"

text \<open>
  A \<open>datetime\<close> of Python from the year 1000 on, the years that \<open>%Y\<close> writes with four
  digits.
\<close>

definition clock_time :: "timestamp \<Rightarrow> bool" where
  "clock_time t =
     (1000 \<le> year t \<and> year t \<le> 9999 \<and> 1 \<le> month t \<and> month t \<le> 12
      \<and> 1 \<le> day t \<and> day t \<le> days_in_month (year t) (month t)
      \<and> hour t < 24 \<and> minute t < 60 \<and> second t < 60)"

section \<open>Worlds and environments of the examples\<close>

text \<open>A world with no file, no object and a silent console.\<close>

definition empty_world :: world where
  "empty_world = \<lparr>files = Map.empty, bucket = Map.empty, console = []\<rparr>"

text \<open>A frame of one row for either table.\<close>

definition published_frame :: dataframe where
  "published_frame = \<lparr>nrows = 1, columns = [(ascii ''id'', IntCol I64 [7])]\<rparr>"

text \<open>
  An environment in which the query of the first table raises and nothing else does, and
  one in which every construction of the client raises and nothing else does.
\<close>

definition fetch_fault_env :: env where
  "fetch_fault_env =
     \<lparr>lib = strict_kernel,
      database = (\<lambda>table. if table = ascii ''dashboard_data''
                            then Inl (LibraryError (ascii ''connection refused''))
                            else Inr published_frame),
      fault = (\<lambda>table c. None),
      now = (\<lambda>table. Timestamp 2024 1 2 3 4 5 0),
      list_objects = (\<lambda>objects. Inr []),
      delete_fault = (\<lambda>key. None)\<rparr>"

definition client_fault_env :: env where
  "client_fault_env =
     \<lparr>lib = strict_kernel,
      database = (\<lambda>table. Inr published_frame),
      fault = (\<lambda>table c. if c = Boto3Client then Some (LibraryError (ascii ''invalid region''))
                            else None),
      now = (\<lambda>table. Timestamp 2024 1 2 3 4 5 0),
      list_objects = (\<lambda>objects. Inl (LibraryError (ascii ''invalid region''))),
      delete_fault = (\<lambda>key. None)\<rparr>"

text \<open>
  An environment in which nothing raises in a library and the first table has a
  \<open>datetime64\<close> column that its schema does not name.
\<close>

definition timestamp_env :: env where
  "timestamp_env =
     \<lparr>lib = strict_kernel,
      database = (\<lambda>table. if table = ascii ''dashboard_data'' then Inr timestamp_frame
                            else Inr published_frame),
      fault = (\<lambda>table c. None),
      now = (\<lambda>table. Timestamp 2024 1 2 3 4 5 0),
      list_objects = (\<lambda>objects. Inr []),
      delete_fault = (\<lambda>key. None)\<rparr>"

section \<open>Properties of the sanitizer\<close>

lemma nrows_assign: "nrows (assign name f df) = nrows df"
  by (simp add: assign_def setitem_def split: option.splits)

lemma names_assign: "map fst (columns (assign name f df)) = map fst (columns df)"
  by (auto simp: assign_def setitem_def getitem_def column_names_def rev_image_eqI split: option.splits dest!: map_of_SomeD intro!: map_cong)

lemma columns_assign:
  assumes "distinct (map fst (columns df))"
  shows "columns (assign name f df) =
         map (\<lambda>(n, c). if n = name then (n, f c) else (n, c)) (columns df)"
proof (cases "map_of (columns df) name")
  case None
  then have "name \<notin> fst ` set (columns df)" by (simp add: map_of_eq_None_iff)
  then have "map (\<lambda>(n, c). if n = name then (n, f c) else (n, c)) (columns df) = columns df"
    by (intro map_idI) force
  with None show ?thesis by (simp add: assign_def getitem_def)
next
  case (Some c0)
  then have in_names: "name \<in> set (column_names df)"
    by (metis column_names_def domI dom_map_of_conv_image_fst set_map)
  have "\<And>n c. (n, c) \<in> set (columns df) \<Longrightarrow> n = name \<Longrightarrow> c = c0"
    using Some assms by (simp add: map_of_eq_Some_iff)
  then have "map (\<lambda>(n, old). if n = name then (n, f c0) else (n, old)) (columns df) =
             map (\<lambda>(n, c). if n = name then (n, f c) else (n, c)) (columns df)"
    by (intro map_cong) auto
  with Some in_names show ?thesis by (simp add: assign_def getitem_def setitem_def)
qed

lemma columns_fold_assign:
  "distinct (map fst (columns df)) \<Longrightarrow> distinct (map fst nfs) \<Longrightarrow>
   columns (fold (\<lambda>(n, f). assign n f) nfs df) =
   map (\<lambda>(n, c). case map_of nfs n of None \<Rightarrow> (n, c) | Some f \<Rightarrow> (n, f c)) (columns df)"
proof (induction nfs arbitrary: df)
  case Nil
  then show ?case by simp
next
  case (Cons nf nfs)
  obtain n f where nf: "nf = (n, f)" by (cases nf)
  have d': "distinct (map fst (columns (assign n f df)))"
    using Cons.prems(1) by (simp add: names_assign)
  have notin: "map_of nfs n = None"
    using Cons.prems(2) nf by (simp add: map_of_eq_None_iff)
  show ?case
    using Cons.IH[OF d'] Cons.prems notin nf
    by (auto simp: columns_assign intro!: map_cong split: option.splits)
qed

lemma nrows_fold_assign: "nrows (fold (\<lambda>(n, f). assign n f) nfs df) = nrows df"
  by (induction nfs arbitrary: df) (auto simp: nrows_assign)


lemma selected_iff:
  assumes "distinct (map fst cs)" "(n, c) \<in> set cs"
  shows "n \<in> set (map fst (filter (\<lambda>(n, c). is_object_or_bool c) cs)) \<longleftrightarrow> is_object_or_bool c"
proof
  assume "n \<in> set (map fst (filter (\<lambda>(n, c). is_object_or_bool c) cs))"
  then obtain c' where "(n, c') \<in> set cs" "is_object_or_bool c'" by auto
  moreover have "c' = c" using assms \<open>(n, c') \<in> set cs\<close> by (meson eq_key_imp_eq_value)
  ultimately show "is_object_or_bool c" by simp
next
  assume "is_object_or_bool c"
  with assms(2) show "n \<in> set (map fst (filter (\<lambda>(n, c). is_object_or_bool c) cs))" by force
qed

lemma columns_clean_dataframe:
  assumes "unique_labels df"
  shows "columns (clean_dataframe df) =
         map (\<lambda>(n, c). if is_object_or_bool c then (n, clean_series c) else (n, c)) (columns df)"
proof -
  let ?ns = "select_dtypes_object_bool df"
  have d: "distinct (map fst (columns df))"
    using assms by (simp add: unique_labels_def column_names_def)
  have dn: "distinct (map fst (map (\<lambda>n. (n, clean_series)) ?ns))"
    using d by (simp add: select_dtypes_object_bool_def comp_def distinct_map_filter)
  have fold_eq: "clean_dataframe df = fold (\<lambda>(n, f). assign n f) (map (\<lambda>n. (n, clean_series)) ?ns) df"
    by (simp add: clean_dataframe_def fold_map comp_def)
  have look: "\<And>n. map_of (map (\<lambda>n. (n, clean_series)) ?ns) n = (if n \<in> set ?ns then Some clean_series else None)"
    by (simp add: map_of_map_restrict restrict_map_def)
  have "map (\<lambda>(n, c). case map_of (map (\<lambda>n. (n, clean_series)) ?ns) n of
                 None \<Rightarrow> (n, c) | Some f \<Rightarrow> (n, f c)) (columns df) =
        map (\<lambda>(n, c). if is_object_or_bool c then (n, clean_series c) else (n, c)) (columns df)"
  proof (intro map_cong refl)
    fix x assume x: "x \<in> set (columns df)"
    obtain n c where nc: "x = (n, c)" by (cases x)
    have "n \<in> set ?ns \<longleftrightarrow> is_object_or_bool c"
      using selected_iff[OF d] x nc unfolding select_dtypes_object_bool_def by blast
    then show "(case x of (n, c) \<Rightarrow> case map_of (map (\<lambda>n. (n, clean_series)) ?ns) n of
                 None \<Rightarrow> (n, c) | Some f \<Rightarrow> (n, f c)) =
               (case x of (n, c) \<Rightarrow> if is_object_or_bool c then (n, clean_series c) else (n, c))"
      unfolding nc by (simp add: look)
  qed
  then show ?thesis
    unfolding fold_eq columns_fold_assign[OF d dn] .
qed

lemma nrows_clean_dataframe: "nrows (clean_dataframe df) = nrows df"
proof -
  have "clean_dataframe df = fold (\<lambda>(n, f). assign n f) (map (\<lambda>n. (n, clean_series)) (select_dtypes_object_bool df)) df"
    by (simp add: clean_dataframe_def fold_map comp_def)
  then show ?thesis by (simp add: nrows_fold_assign)
qed

lemma names_clean_dataframe: "unique_labels df \<Longrightarrow> column_names (clean_dataframe df) = column_names df"
  by (simp add: column_names_def columns_clean_dataframe comp_def case_prod_beta if_distrib cong: if_cong)

lemma allowed_not_ws: "allowed_char c \<Longrightarrow> \<not> (c = 13 \<or> c = 10 \<or> c = 9)"
  by (auto simp: allowed_char_def)

lemma replace_whitespace_clean: "replace_whitespace (remove_disallowed s) = remove_disallowed s"
  unfolding replace_whitespace_def remove_disallowed_def
  by (intro map_idI) (auto dest: allowed_not_ws)

lemma remove_disallowed_idem: "remove_disallowed (remove_disallowed s) = remove_disallowed s"
  by (simp add: remove_disallowed_def)

lemma clean_series_eq:
  "clean_series c = ObjectCol (map (\<lambda>s. PyStr (remove_disallowed (replace_whitespace s))) (str_cells c))"
  by (simp add: clean_series_def astype_str_def comp_def)

lemma str_cells_selected: "is_object_or_bool c \<Longrightarrow> str_cells c = map py_str (boxed c)"
  by (cases c) simp_all

lemma clean_series_idem: "clean_series (clean_series c) = clean_series c"
  by (simp add: clean_series_eq comp_def replace_whitespace_clean remove_disallowed_idem)

lemma clean_series_selected: "is_object_or_bool (clean_series c)"
  by (simp add: clean_series_eq)

text \<open>
  C6. Sanitizing twice is sanitizing once: for every frame with distinct labels,
  \<open>clean_dataframe (clean_dataframe df) = clean_dataframe df\<close>.
\<close>

theorem clean_dataframe_idempotent:
  assumes "unique_labels df"
  shows "clean_dataframe (clean_dataframe df) = clean_dataframe df"
proof -
  have u: "unique_labels (clean_dataframe df)"
    using assms by (simp add: unique_labels_def names_clean_dataframe)
  have "columns (clean_dataframe (clean_dataframe df)) = columns (clean_dataframe df)"
    unfolding columns_clean_dataframe[OF u] unfolding columns_clean_dataframe[OF assms]
    by (auto simp: comp_def clean_series_idem clean_series_selected intro!: map_cong)
  moreover have "nrows (clean_dataframe (clean_dataframe df)) = nrows (clean_dataframe df)"
    by (simp add: nrows_clean_dataframe)
  moreover have "dataframe.more (clean_dataframe (clean_dataframe df)) = dataframe.more (clean_dataframe df)"
    by simp
  ultimately show ?thesis by (intro dataframe.equality) auto
qed

lemma evaluate_frames [simp]:
  "unique_labels sample_frame" "unique_labels null_frame"
  by (simp_all add: unique_labels_def column_names_def sample_frame_def null_frame_def ascii_def)

theorem clean_dataframe_idempotent_witness:
  "unique_labels sample_frame
   \<and> clean_dataframe (clean_dataframe sample_frame) = clean_dataframe sample_frame"
  using clean_dataframe_idempotent [of sample_frame] by simp

text \<open>
  C3, as amended. For every frame with distinct labels, sanitizing keeps the index and the
  labels, leaves every column of an integer, float or \<open>datetime64\<close> dtype as it is (its
  nulls \<open>NaN\<close> and \<open>NaT\<close> included), and replaces every cell of an object or boolean
  column, a null included, by the cleaned text of \<open>str\<close> of the cell.
\<close>

theorem clean_dataframe_columns:
  assumes "unique_labels df" and "(name, c) \<in> set (columns df)"
  shows "nrows (clean_dataframe df) = nrows df
         \<and> column_names (clean_dataframe df) = column_names df
         \<and> getitem (clean_dataframe df) name =
             Some (if is_object_or_bool c
                   then ObjectCol (map (\<lambda>x. PyStr (remove_disallowed (replace_whitespace (py_str x))))
                                    (boxed c))
                   else c)"
proof -
  have d: "distinct (map fst (columns (clean_dataframe df)))"
    using assms(1) names_clean_dataframe[OF assms(1)] by (simp add: unique_labels_def column_names_def)
  have "(name, if is_object_or_bool c then clean_series c else c) \<in> set (columns (clean_dataframe df))"
    unfolding columns_clean_dataframe[OF assms(1)] using assms(2) by force
  then have "getitem (clean_dataframe df) name = Some (if is_object_or_bool c then clean_series c else c)"
    using d by (simp add: getitem_def)
  then show ?thesis
    using assms(1)
    by (cases "is_object_or_bool c")
       (simp_all add: nrows_clean_dataframe names_clean_dataframe clean_series_eq
          str_cells_selected comp_def)
qed

theorem clean_dataframe_columns_witness:
  "unique_labels sample_frame
   \<and> (ascii ''post_id'', ObjectCol [PyStr [97, 9, 98, 128512, 241], PyNone]) \<in> set (columns sample_frame)
   \<and> nrows (clean_dataframe sample_frame) = 2
   \<and> getitem (clean_dataframe sample_frame) (ascii ''post_id'') =
       Some (ObjectCol [PyStr [97, 32, 98, 241], PyStr (ascii ''None'')])"
proof -
  have m: "(ascii ''post_id'', ObjectCol [PyStr [97, 9, 98, 128512, 241], PyNone]) \<in> set (columns sample_frame)"
    by (simp add: sample_frame_def)
  have n: "nrows sample_frame = 2"
    by (simp add: sample_frame_def)
  show ?thesis
    using clean_dataframe_columns [OF evaluate_frames(1) m] m n
    by (simp add: remove_disallowed_def replace_whitespace_def allowed_char_def ascii_def)
qed

text \<open>
  C3, as stated, fails: the null of a text column is the text \<open>None\<close> after sanitizing.
\<close>

theorem clean_dataframe_null_counterexample:
  "getitem null_frame (ascii ''post_id'') = Some (ObjectCol [PyNone])
   \<and> getitem (clean_dataframe null_frame) (ascii ''post_id'') = Some (ObjectCol [PyStr (ascii ''None'')])"
  by (simp add: null_frame_def clean_dataframe_def select_dtypes_object_bool_def assign_def
      getitem_def setitem_def column_names_def clean_series_def astype_str_def
      replace_whitespace_def remove_disallowed_def allowed_char_def ascii_def)

section \<open>Properties of the type caster\<close>

subsection \<open>The numeric rules and the text rule are idempotent on a column\<close>

lemma narrowest_again: "narrowest b ns = Some w \<Longrightarrow> narrowest (int_size w) ns = Some w"
  by (auto simp: narrowest_def split: if_splits)

lemma narrowest_empty: "narrowest (Suc 0) [] = Some I8"
  by (simp add: narrowest_def)

lemma downcast_integer_idem: "downcast_integer k (downcast_integer k c) = downcast_integer k c"
  by (cases c) (auto simp: narrowest_again narrowest_empty split: option.splits)

lemma numeric_values_downcast_integer:
  "numeric_values k (downcast_integer k (numeric_values k c)) = downcast_integer k (numeric_values k c)"
  by (cases c) (auto simp: Let_def split: option.splits)

lemma to_numeric_integer_idem:
  "to_numeric_integer k (to_numeric_integer k c) = to_numeric_integer k c"
  by (simp add: to_numeric_integer_def numeric_values_downcast_integer downcast_integer_idem)

lemma downcast_float_idem: "downcast_float k (downcast_float k c) = downcast_float k c"
proof (cases c)
  case (IntCol w ns)
  then show ?thesis by (cases w) (auto simp: comp_def split: option.splits)
next
  case (FloatCol w xs)
  then show ?thesis by (cases w) (auto split: option.splits)
qed simp_all

lemma numeric_values_downcast_float:
  "numeric_values k (downcast_float k (numeric_values k c)) = downcast_float k (numeric_values k c)"
proof (cases "numeric_values k c")
  case (ObjectCol xs)
  then show ?thesis by (cases c) (auto simp: Let_def split: if_splits)
next
  case (BoolCol bs)
  then show ?thesis by simp
next
  case (IntCol w ns)
  then show ?thesis by (cases w) (auto split: option.splits)
next
  case (FloatCol w xs)
  then show ?thesis by (cases w) (auto split: option.splits)
next
  case (DatetimeCol ts)
  then show ?thesis by (cases c) (auto simp: Let_def split: if_splits)
qed

lemma to_numeric_float_idem:
  "to_numeric_float k (to_numeric_float k c) = to_numeric_float k c"
  by (simp add: to_numeric_float_def numeric_values_downcast_float downcast_float_idem)

lemma astype_str_idem: "astype_str (astype_str c) = astype_str c"
  by (simp add: astype_str_def comp_def)

subsection \<open>The text written for a timestamp reads back\<close>

lemma nat_digits_1: "n < 10 \<Longrightarrow> nat_digits n = [48 + n]"
  by (simp add: nat_digits.simps)

lemma nat_digits_2: "10 \<le> n \<Longrightarrow> n < 100 \<Longrightarrow> nat_digits n = [48 + n div 10, 48 + n mod 10]"
  by (subst nat_digits.simps) (simp add: nat_digits_1)

lemma nat_digits_3:
  "100 \<le> n \<Longrightarrow> n < 1000 \<Longrightarrow>
   nat_digits n = [48 + n div 10 div 10, 48 + n div 10 mod 10, 48 + n mod 10]"
proof -
  assume "100 \<le> n" "n < 1000"
  then have "10 \<le> n div 10" "n div 10 < 100" "\<not> n < 10" by auto
  then show ?thesis by (subst nat_digits.simps) (simp add: nat_digits_2)
qed

lemma nat_digits_4:
  "1000 \<le> n \<Longrightarrow> n < 10000 \<Longrightarrow>
   nat_digits n =
     [48 + n div 10 div 10 div 10, 48 + n div 10 div 10 mod 10, 48 + n div 10 mod 10, 48 + n mod 10]"
proof -
  assume "1000 \<le> n" "n < 10000"
  then have "100 \<le> n div 10" "n div 10 < 1000" "\<not> n < 10" by auto
  then show ?thesis by (subst nat_digits.simps) (simp add: nat_digits_3)
qed

lemma zero_pad_2: "n < 100 \<Longrightarrow> zero_pad 2 n = [48 + n div 10, 48 + n mod 10]"
  by (cases "n < 10") (simp_all add: zero_pad_def nat_digits_1 nat_digits_2)

lemma zero_pad_4:
  "1000 \<le> n \<Longrightarrow> n < 10000 \<Longrightarrow>
   zero_pad 4 n =
     [48 + n div 10 div 10 div 10, 48 + n div 10 div 10 mod 10, 48 + n div 10 mod 10, 48 + n mod 10]"
  by (simp add: zero_pad_def nat_digits_4)

lemma digits_value_2: "digits_value [48 + a, 48 + b] = 10 * a + b"
  by (simp add: digits_value_def)

lemma digits_value_4:
  "digits_value [48 + a, 48 + b, 48 + c, 48 + d] = 1000 * a + 100 * b + 10 * c + d"
  by (simp add: digits_value_def)

lemma read_digits_2:
  "a < 10 \<Longrightarrow> b < 10 \<Longrightarrow> read_digits [48 + a, 48 + b] = Some (10 * a + b)"
  unfolding read_digits_def digits_value_2 by (simp add: is_digit_def)

lemma read_digits_4:
  "a < 10 \<Longrightarrow> b < 10 \<Longrightarrow> c < 10 \<Longrightarrow> d < 10 \<Longrightarrow>
   read_digits [48 + a, 48 + b, 48 + c, 48 + d] = Some (1000 * a + 100 * b + 10 * c + d)"
  unfolding read_digits_def digits_value_4 by (simp add: is_digit_def)

lemma days_in_month_le: "days_in_month y m \<le> 31"
  by (simp add: days_in_month_def)

lemma four_digits:
  "1000 * (n div 10 div 10 div 10) + 100 * (n div 10 div 10 mod 10) + 10 * (n div 10 mod 10)
     + n mod 10 = (n::nat)"
proof -
  have "n = 10 * (n div 10) + n mod 10" by simp
  moreover have "n div 10 = 10 * (n div 10 div 10) + n div 10 mod 10" by simp
  moreover have "n div 10 div 10 = 10 * (n div 10 div 10 div 10) + n div 10 div 10 mod 10" by simp
  ultimately show ?thesis by linarith
qed

lemma two_digits: "10 * (n div 10) + n mod 10 = (n::nat)"
  by simp


lemma valid_timestamp_digits:
  assumes "valid_timestamp t"
  shows "calendar_time t" "1000 \<le> year t" "year t < 10000"
proof -
  show c: "calendar_time t" using assms by (simp add: valid_timestamp_def)
  have b: "month t \<le> 12" "day t \<le> 31" "hour t < 24" "minute t < 60" "second t < 60"
    using c days_in_month_le[of "year t" "month t"] by (auto simp: calendar_time_def)
  have k: "16770921001243 \<le> ts_key t" "ts_key t \<le> 22620411234716"
    using assms by (auto simp: valid_timestamp_def)
  have e: "ts_key t = year t * 10000000000 + month t * 100000000 + day t * 1000000
              + hour t * 10000 + minute t * 100 + second t"
    by (simp add: ts_key_def algebra_simps)
  show "1000 \<le> year t" using k(1) b unfolding e by linarith
  show "year t < 10000" using k(2) unfolding e by linarith
qed

lemma parse_iso_date:
  assumes "calendar_time t" "1000 \<le> year t" "year t < 10000"
  shows "parse_iso (strftime_date t) = Some (DateLayout, midnight t)"
proof -
  from assms have m: "month t < 100" and d: "day t < 100"
    using days_in_month_le[of "year t" "month t"] by (auto simp: calendar_time_def)
  have yd: "year t div 10 div 10 div 10 < 10" using assms by simp
  have c: "calendar_time (Timestamp (year t) (month t) (day t) 0 0 0 0)"
    using assms(1) by (simp add: calendar_time_def)
  have "parse_iso (strftime_date t) =
        (if calendar_time (Timestamp (year t) (month t) (day t) 0 0 0 0)
         then Some (DateLayout, Timestamp (year t) (month t) (day t) 0 0 0 0) else None)"
    using assms(2,3) m d yd
    by (simp add: strftime_date_def date_text_def zero_pad_2 zero_pad_4 parse_iso_def
        read_field_def read_digits_2 read_digits_4 four_digits two_digits)
  with c show ?thesis by (simp add: midnight_def)
qed

lemma parse_iso_timestamp:
  assumes "calendar_time t" "1000 \<le> year t" "year t < 10000"
  shows "parse_iso (strftime_timestamp t) = Some (SpaceLayout, whole_second t)"
proof -
  from assms have m: "month t < 100" and d: "day t < 100"
    and h: "hour t < 100" "minute t < 100" "second t < 100"
    using days_in_month_le[of "year t" "month t"] by (auto simp: calendar_time_def)
  have yd: "year t div 10 div 10 div 10 < 10" using assms by simp
  have c: "calendar_time (Timestamp (year t) (month t) (day t) (hour t) (minute t) (second t) 0)"
    using assms(1) by (simp add: calendar_time_def)
  have "parse_iso (strftime_timestamp t) =
        (if calendar_time (Timestamp (year t) (month t) (day t) (hour t) (minute t) (second t) 0)
         then Some (SpaceLayout,
                    Timestamp (year t) (month t) (day t) (hour t) (minute t) (second t) 0)
         else None)"
    using assms(2,3) m d h yd
    by (simp add: strftime_timestamp_def date_text_def time_text_def zero_pad_2 zero_pad_4
        parse_iso_def read_field_def read_digits_2 read_digits_4 four_digits two_digits)
  with c show ?thesis by (simp add: whole_second_def)
qed

lemma strftime_date_midnight: "strftime_date (midnight t) = strftime_date t"
  by (simp add: strftime_date_def midnight_def)

lemma strftime_timestamp_whole_second: "strftime_timestamp (whole_second t) = strftime_timestamp t"
  by (simp add: strftime_timestamp_def whole_second_def)

lemma datetime_cell_valid: "datetime_cell k xs r x = Some t \<Longrightarrow> valid_timestamp t"
  by (induction k xs r x rule: datetime_cell.induct)
     (auto simp: checked_def split: option.splits if_splits)

lemma to_datetime_valid: "Some t \<in> set (to_datetime k c) \<Longrightarrow> valid_timestamp t"
  by (cases c) (auto simp: checked_def dest: datetime_cell_valid[OF sym] split: option.splits if_splits)

text \<open>
  The column that \<open>strftime\<close> wrote holds text of one layout and nulls: pandas infers that
  layout, unless every cell is null.
\<close>

lemma reading_inferred:
  assumes "\<And>t. valid_timestamp t \<Longrightarrow> parse_iso (fmt t) = Some (l, trunc t)"
    and "\<forall>t. Some t \<in> set ts \<longrightarrow> valid_timestamp t"
  shows "reading_of (first_non_null
            (map (\<lambda>r. case r of None \<Rightarrow> PyFloat NaN | Some t \<Rightarrow> PyStr (fmt t)) ts)) = Inferred l
         \<or> (\<forall>r \<in> set ts. r = None)"
  using assms(2)
proof (induction ts)
  case Nil
  then show ?case by simp
next
  case (Cons r ts)
  show ?case
  proof (cases r)
    case None
    with Cons show ?thesis by (auto simp: first_non_null_def)
  next
    case (Some t)
    with Cons.prems have "valid_timestamp t" by simp
    with Some show ?thesis by (simp add: first_non_null_def assms(1))
  qed
qed

lemma reread:
  assumes "\<And>t. valid_timestamp t \<Longrightarrow> parse_iso (fmt t) = Some (l, trunc t)"
    and "\<forall>t. Some t \<in> set ts \<longrightarrow> valid_timestamp t"
    and "\<forall>t. Some t \<in> set ts \<longrightarrow> valid_timestamp (trunc t)"
  shows "to_datetime k (dt_strftime fmt ts) = map (map_option trunc) ts"
proof -
  let ?enc = "\<lambda>r. case r of None \<Rightarrow> PyFloat NaN | Some t \<Rightarrow> PyStr (fmt t)"
  let ?ys = "map ?enc ts"
  let ?R = "reading_of (first_non_null ?ys)"
  have "datetime_cell k ?ys ?R (?enc r) = map_option trunc r" if "r \<in> set ts" for r
  proof (cases r)
    case None
    then show ?thesis by simp
  next
    case (Some t)
    with that have t: "valid_timestamp t" "valid_timestamp (trunc t)"
      using assms(2,3) by auto
    from that Some have "?R = Inferred l"
      using reading_inferred[of fmt l trunc ts, OF assms(1) assms(2)] by auto
    with Some t show ?thesis by (simp add: assms(1) checked_def)
  qed
  then show ?thesis by (simp add: dt_strftime_def comp_def)
qed

lemma strftime_again:
  assumes "\<And>t. fmt (trunc t) = fmt t"
  shows "dt_strftime fmt (map (map_option trunc) ts) = dt_strftime fmt ts"
  by (auto simp: dt_strftime_def comp_def assms split: option.splits)

lemma list_all_option:
  "list_all (\<lambda>r. case r of None \<Rightarrow> True | Some t \<Rightarrow> P t) rs \<longleftrightarrow> (\<forall>t. Some t \<in> set rs \<longrightarrow> P t)"
  by (auto simp: list_all_iff split: option.splits)

lemma strftime_date_idem:
  assumes "\<forall>t. Some t \<in> set (to_datetime k c) \<longrightarrow> valid_timestamp (midnight t)"
  shows "dt_strftime strftime_date (to_datetime k (dt_strftime strftime_date (to_datetime k c))) =
         dt_strftime strftime_date (to_datetime k c)"
proof -
  have "to_datetime k (dt_strftime strftime_date (to_datetime k c)) =
        map (map_option midnight) (to_datetime k c)"
  proof (rule reread[where l = DateLayout])
    show "parse_iso (strftime_date t) = Some (DateLayout, midnight t)" if "valid_timestamp t" for t
      using valid_timestamp_digits[OF that] by (rule parse_iso_date)
    show "\<forall>t. Some t \<in> set (to_datetime k c) \<longrightarrow> valid_timestamp t"
      by (auto dest: to_datetime_valid)
    show "\<forall>t. Some t \<in> set (to_datetime k c) \<longrightarrow> valid_timestamp (midnight t)"
      by (rule assms)
  qed
  then show ?thesis by (simp add: strftime_again strftime_date_midnight)
qed

lemma strftime_timestamp_idem:
  assumes "\<forall>t. Some t \<in> set (to_datetime k c) \<longrightarrow> valid_timestamp (whole_second t)"
  shows "dt_strftime strftime_timestamp
           (to_datetime k (dt_strftime strftime_timestamp (to_datetime k c))) =
         dt_strftime strftime_timestamp (to_datetime k c)"
proof -
  have "to_datetime k (dt_strftime strftime_timestamp (to_datetime k c)) =
        map (map_option whole_second) (to_datetime k c)"
  proof (rule reread[where l = SpaceLayout])
    show "parse_iso (strftime_timestamp t) = Some (SpaceLayout, whole_second t)"
      if "valid_timestamp t" for t
      using valid_timestamp_digits[OF that] by (rule parse_iso_timestamp)
    show "\<forall>t. Some t \<in> set (to_datetime k c) \<longrightarrow> valid_timestamp t"
      by (auto dest: to_datetime_valid)
    show "\<forall>t. Some t \<in> set (to_datetime k c) \<longrightarrow> valid_timestamp (whole_second t)"
      by (rule assms)
  qed
  then show ?thesis by (simp add: strftime_again strftime_timestamp_whole_second)
qed

lemma type_tags_differ: "ascii ''date'' \<noteq> ascii ''timestamp''"
  by (simp add: ascii_def)

lemma cast_series_idem:
  assumes "list_all (\<lambda>r. case r of None \<Rightarrow> True | Some t \<Rightarrow> rereadable typ t) (to_datetime k c)"
  shows "cast_series k typ (cast_series k typ c) = cast_series k typ c"
proof -
  have r: "\<forall>t. Some t \<in> set (to_datetime k c) \<longrightarrow> rereadable typ t"
    using assms by (simp add: list_all_option)
  show ?thesis
  proof (cases "typ = ascii ''date''")
    case True
    with r have "\<forall>t. Some t \<in> set (to_datetime k c) \<longrightarrow> valid_timestamp (midnight t)"
      by (simp add: rereadable_def)
    then have "dt_strftime strftime_date
                 (to_datetime k (dt_strftime strftime_date (to_datetime k c))) =
               dt_strftime strftime_date (to_datetime k c)"
      by (rule strftime_date_idem)
    moreover have "cast_series k (ascii ''date'') = (\<lambda>c. dt_strftime strftime_date (to_datetime k c))"
      by (intro ext) (simp add: cast_series_def ascii_def)
    ultimately show ?thesis using True by simp
  next
    case False
    show ?thesis
    proof (cases "typ = ascii ''timestamp''")
      case True
      with r type_tags_differ
      have "\<forall>t. Some t \<in> set (to_datetime k c) \<longrightarrow> valid_timestamp (whole_second t)"
        by (simp add: rereadable_def)
      then have "dt_strftime strftime_timestamp
                   (to_datetime k (dt_strftime strftime_timestamp (to_datetime k c))) =
                 dt_strftime strftime_timestamp (to_datetime k c)"
        by (rule strftime_timestamp_idem)
      moreover have "cast_series k (ascii ''timestamp'') =
                     (\<lambda>c. dt_strftime strftime_timestamp (to_datetime k c))"
        by (intro ext) (simp add: cast_series_def ascii_def)
      ultimately show ?thesis using True by simp
    next
      case False
      with \<open>typ \<noteq> ascii ''date''\<close> show ?thesis
        by (simp add: cast_series_def to_numeric_integer_idem to_numeric_float_idem
            astype_str_idem)
    qed
  qed
qed

subsection \<open>The loop over the schema, column by column\<close>

lemma continue_is_assign:
  "(if name \<notin> set (column_names d) then d else assign name f d) = assign name f d"
  by (auto simp: assign_def getitem_def column_names_def rev_image_eqI split: option.splits
      dest!: map_of_SomeD)

lemma cast_types_fold:
  "cast_types k df schema = fold (\<lambda>(n, f). assign n f) (rules k schema) df"
  by (simp add: cast_types_def rules_def continue_is_assign fold_map comp_def)

lemma columns_cast_types:
  assumes "unique_labels df" and "distinct (map Name schema)"
  shows "columns (cast_types k df schema) =
         map (\<lambda>(n, c). case map_of (rules k schema) n of None \<Rightarrow> (n, c) | Some f \<Rightarrow> (n, f c))
           (columns df)"
proof -
  have d: "distinct (map fst (columns df))"
    using assms(1) by (simp add: unique_labels_def column_names_def)
  have r: "distinct (map fst (rules k schema))"
    using assms(2) by (simp add: rules_def comp_def)
  show ?thesis
    unfolding cast_types_fold by (rule columns_fold_assign[OF d r])
qed

lemma nrows_cast_types: "nrows (cast_types k df schema) = nrows df"
  by (simp add: cast_types_fold nrows_fold_assign)

lemma names_fold_assign:
  "map fst (columns (fold (\<lambda>(n, f). assign n f) nfs df)) = map fst (columns df)"
  by (induction nfs arbitrary: df) (auto simp: names_assign)

lemma names_cast_types: "column_names (cast_types k df schema) = column_names df"
  by (simp add: column_names_def cast_types_fold names_fold_assign)


text \<open>
  C7, as amended. For every kernel, every frame with distinct labels and every schema that
  names each column once: when no cell of a column declared \<open>date\<close> is read as a time of
  1677-09-21 (the first day of pandas, whose midnight pandas cannot hold) and no cell of a
  column declared \<open>timestamp\<close> as a time before 1677-09-21 00:12:44, casting twice is
  casting once.
\<close>

theorem cast_types_idempotent:
  assumes "unique_labels df" and "distinct (map Name schema)" and "recast_safe k df schema"
  shows "cast_types k (cast_types k df schema) schema = cast_types k df schema"
proof -
  have u: "unique_labels (cast_types k df schema)"
    using assms(1) by (simp add: unique_labels_def names_cast_types)
  have d: "distinct (map fst (columns df))"
    using assms(1) by (simp add: unique_labels_def column_names_def)
  have idem: "f (f c) = f c"
    if "(n, c) \<in> set (columns df)" and "map_of (rules k schema) n = Some f" for n c f
  proof -
    from that(2) obtain col where col: "col \<in> set schema" "n = Name col"
      "f = cast_series k (Type col)"
      by (auto simp: rules_def dest!: map_of_SomeD)
    have "getitem df (Name col) = Some c"
      using that(1) col(2) d by (simp add: getitem_def)
    with assms(3) col(1)
    have "list_all (\<lambda>r. case r of None \<Rightarrow> True | Some t \<Rightarrow> rereadable (Type col) t)
            (to_datetime k c)"
      by (auto simp: recast_safe_def list_all_iff)
    then show ?thesis unfolding col(3) by (rule cast_series_idem)
  qed
  have "columns (cast_types k (cast_types k df schema) schema) = columns (cast_types k df schema)"
    unfolding columns_cast_types[OF u assms(2)] unfolding columns_cast_types[OF assms(1,2)]
    by (auto simp: comp_def idem split: option.splits intro!: map_cong)
  moreover have "nrows (cast_types k (cast_types k df schema) schema) = nrows (cast_types k df schema)"
    by (simp add: nrows_cast_types)
  moreover have "dataframe.more (cast_types k (cast_types k df schema) schema) =
                 dataframe.more (cast_types k df schema)"
    by simp
  ultimately show ?thesis by (intro dataframe.equality) auto
qed

section \<open>Evaluating the examples\<close>

lemmas evaluate_text = ascii_def int_str_def zero_pad_def nat_digits.simps

lemmas evaluate_frame =
  getitem_def setitem_def assign_def column_names_def

lemmas evaluate_cast =
  cast_types_def cast_series_def to_numeric_integer_def to_numeric_float_def
  strict_kernel_def to_float_def read_digits_def is_digit_def digits_value_def narrowest_def
  is_float_number_def first_non_null_def dt_strftime_def parse_iso_def read_field_def
  checked_def valid_timestamp_def calendar_time_def ts_key_def days_in_month_def is_leap_def
  strftime_date_def strftime_timestamp_def date_text_def time_text_def astype_str_def

lemmas evaluate_export =
  export_lines_def render_rows_def row_items_def float_rows_def cell_def to_dict_def
  dict_set_def json_dumps_def json_string_def escape_char_def hex_digit_def upt_rec

lemma evaluate_scenario [simp]:
  "unique_labels scenario_frame" "distinct (map Name scenario_schema)"
  by (simp_all add: unique_labels_def column_names_def scenario_frame_def scenario_schema_def
      ascii_def)

lemma scenario_recast_safe: "recast_safe strict_kernel scenario_frame scenario_schema"
  by (simp add: recast_safe_def rereadable_def midnight_def whole_second_def scenario_frame_def
      scenario_schema_def evaluate_cast evaluate_frame evaluate_text)

theorem cast_types_idempotent_witness:
  "unique_labels scenario_frame \<and> distinct (map Name scenario_schema)
   \<and> recast_safe strict_kernel scenario_frame scenario_schema
   \<and> cast_types strict_kernel (cast_types strict_kernel scenario_frame scenario_schema)
        scenario_schema = cast_types strict_kernel scenario_frame scenario_schema"
  using cast_types_idempotent [of scenario_frame scenario_schema strict_kernel]
    scenario_recast_safe by simp

text \<open>
  C7, as stated, fails. The text \<open>1677-09-21 12:00:00\<close> is a time that pandas can hold: a
  cast under \<open>date\<close> writes \<open>1677-09-21\<close> for it. A second cast reads the midnight of that
  day, which lies before the first timestamp of pandas, and writes a null.
\<close>

theorem cast_types_boundary_counterexample:
  "cast_types strict_kernel boundary_frame boundary_schema =
     \<lparr>nrows = 1, columns = [(ascii ''date_posted'', ObjectCol [PyStr (ascii ''1677-09-21'')])]\<rparr>
   \<and> cast_types strict_kernel (cast_types strict_kernel boundary_frame boundary_schema)
        boundary_schema =
     \<lparr>nrows = 1, columns = [(ascii ''date_posted'', ObjectCol [PyFloat NaN])]\<rparr>
   \<and> cast_types strict_kernel (cast_types strict_kernel boundary_frame boundary_schema)
        boundary_schema \<noteq> cast_types strict_kernel boundary_frame boundary_schema"
proof -
  have once: "cast_types strict_kernel boundary_frame boundary_schema =
     \<lparr>nrows = 1, columns = [(ascii ''date_posted'', ObjectCol [PyStr (ascii ''1677-09-21'')])]\<rparr>"
    by (simp add: boundary_frame_def boundary_schema_def evaluate_cast evaluate_frame
        evaluate_text)
  have twice: "cast_types strict_kernel
       \<lparr>nrows = 1, columns = [(ascii ''date_posted'', ObjectCol [PyStr (ascii ''1677-09-21'')])]\<rparr>
       boundary_schema =
     \<lparr>nrows = 1, columns = [(ascii ''date_posted'', ObjectCol [PyFloat NaN])]\<rparr>"
    by (simp add: boundary_schema_def evaluate_cast evaluate_frame evaluate_text)
  show ?thesis unfolding once twice by simp
qed

section \<open>The scenario\<close>

lemma cast_scenario:
  "cast_types strict_kernel scenario_frame scenario_schema =
     \<lparr>nrows = 2,
      columns = [(ascii ''id'', FloatCol W64 [FInt 1, NaN]),
                 (ascii ''views'', IntCol I8 [10, 20]),
                 (ascii ''date_posted'', ObjectCol [PyStr (ascii ''2024-01-01''), PyFloat NaN])]\<rparr>"
  by (simp add: scenario_frame_def scenario_schema_def evaluate_cast evaluate_frame evaluate_text)

lemma cast_parsable_id:
  "cast_types strict_kernel parsable_id_frame scenario_schema =
     \<lparr>nrows = 2,
      columns = [(ascii ''id'', IntCol I8 [1, 2]),
                 (ascii ''views'', IntCol I8 [10, 20]),
                 (ascii ''date_posted'', ObjectCol [PyStr (ascii ''2024-01-01''), PyFloat NaN])]\<rparr>"
  by (simp add: parsable_id_frame_def scenario_schema_def evaluate_cast evaluate_frame evaluate_text)

lemma export_scenario:
  \<open>export_lines strict_kernel (cast_types strict_kernel scenario_frame scenario_schema) =
     (None, [ascii ''{"id": 1.0, "views": 10, "date_posted": "2024-01-01"}'',
             ascii ''{"id": NaN, "views": 20, "date_posted": NaN}''])\<close>
  unfolding cast_scenario by (simp add: evaluate_export evaluate_text)

lemma export_parsable_id:
  \<open>export_lines strict_kernel (cast_types strict_kernel parsable_id_frame scenario_schema) =
     (None, [ascii ''{"id": 1, "views": 10, "date_posted": "2024-01-01"}'',
             ascii ''{"id": 2, "views": 20, "date_posted": NaN}''])\<close>
  unfolding cast_parsable_id by (simp add: evaluate_export evaluate_text)



text \<open>
  C4 at the scenario: the identifier \<open>"x"\<close> cannot be parsed, and the identifier of the other
  row, \<open>"1"\<close>, becomes the float \<open>1.0\<close>; with \<open>"2"\<close> in place of \<open>"x"\<close> it is the integer
  \<open>1\<close> (of an 8-bit column). The lines written for the first row differ.
\<close>

theorem cast_types_not_column_local:
  \<open>getitem (cast_types strict_kernel scenario_frame scenario_schema) (ascii ''id'') =
     Some (FloatCol W64 [FInt 1, NaN])
   \<and> getitem (cast_types strict_kernel parsable_id_frame scenario_schema) (ascii ''id'') =
     Some (IntCol I8 [1, 2])
   \<and> hd (snd (export_lines strict_kernel (cast_types strict_kernel scenario_frame scenario_schema))) =
     ascii ''{"id": 1.0, "views": 10, "date_posted": "2024-01-01"}''
   \<and> hd (snd (export_lines strict_kernel (cast_types strict_kernel parsable_id_frame scenario_schema))) =
     ascii ''{"id": 1, "views": 10, "date_posted": "2024-01-01"}''\<close>
  unfolding export_scenario export_parsable_id
  unfolding cast_scenario cast_parsable_id
  by (simp add: getitem_def ascii_def)

section \<open>The serializer on nulls and timestamps\<close>

text \<open>
  C5 at two frames of one row. A null of a float column is written \<open>NaN\<close>, which is no
  value of JSON; a timestamp raises \<open>TypeError\<close> and no line is written for the row.
\<close>

theorem export_lines_not_json:
  \<open>export_lines strict_kernel nan_frame = (None, [ascii ''{"likes": NaN, "post_id": "a"}''])
   \<and> export_lines strict_kernel timestamp_frame = (Some TypeError, [])\<close>
  by (simp add: nan_frame_def timestamp_frame_def evaluate_export evaluate_text)

section \<open>Properties of the orchestrator\<close>

lemma export_tables_append:
  "export_tables E tables schemas (xs @ ys) w =
   export_tables E tables schemas ys (export_tables E tables schemas xs w)"
  by (induction xs arbitrary: w) auto

lemma export_tables_two:
  "ts = [(a, fa), (b, fb)] \<Longrightarrow>
   export_tables E tables schemas ts w =
   export_table E tables schemas b (export_table E tables schemas a w)"
  by simp

lemma export_table_published:
  assumes "map_of tables B = Some folder"
    and "database E B = Inr df" and "\<not> empty_frame df"
    and "\<forall>c. fault E B c = None"
    and "export_lines (lib E) (cast_types (lib E) (clean_dataframe df) (schema_of schemas B)) = (None, written)"
  shows "export_table E tables schemas B w =
         w\<lparr>files := (files w)(B @ ascii ''.json'' := None),
           bucket := (bucket w)(s3_key folder B (now E B) \<mapsto> file_text written),
           console := console w @ [Exporting B, Uploaded B (s3_key folder B (now E B))]\<rparr>"
  using assms
  by (simp add: export_table_def table_body_def export_to_ndjson_def subir_a_s3_json_def
      os_remove_def print_def Let_def)

lemma export_table_fetch_error:
  "database E A = Inl e \<Longrightarrow>
   export_table E tables schemas A w = w\<lparr>console := console w @ [Exporting A, TableError A e]\<rparr>"
  by (simp add: export_table_def table_body_def print_def)

text \<open>
  C1. In a run over any catalog with distinct table names, take a table \<open>B\<close> whose query
  returns a frame that is not empty, whose calls raise nothing and whose rows all
  serialize. Whatever the tables declared before \<open>B\<close> did, and so whichever of their
  stages raised, \<open>B\<close> is fetched, sanitized, cast, serialized and published: the world
  after \<open>B\<close> is the world the earlier tables left, with the lines of \<open>B\<close> in the bucket
  under its key, its temporary file gone and its two messages on the console. The run
  then goes on with the tables declared after \<open>B\<close>.
\<close>

theorem failure_isolation:
  assumes "distinct (map fst tables)"
    and "tables = before @ (B, folder) # after"
    and "database E B = Inr df" and "\<not> empty_frame df"
    and "\<forall>c. fault E B c = None"
    and "export_lines (lib E) (cast_types (lib E) (clean_dataframe df) (schema_of schemas B)) = (None, written)"
  shows "run tables schemas E w =
         export_tables E tables schemas after
           (let w1 = export_tables E tables schemas before (limpiar_bucket E w)
            in w1\<lparr>files := (files w1)(B @ ascii ''.json'' := None),
                  bucket := (bucket w1)(s3_key folder B (now E B) \<mapsto> file_text written),
                  console := console w1 @ [Exporting B, Uploaded B (s3_key folder B (now E B))]\<rparr>)"
proof -
  have "(B, folder) \<in> set tables" using assms(2) by simp
  then have look: "map_of tables B = Some folder"
    using assms(1) by simp
  have "run tables schemas E w =
        export_tables E tables schemas after
          (export_table E tables schemas B
             (export_tables E tables schemas before (limpiar_bucket E w)))"
    unfolding run_def by (subst (2) assms(2)) (simp add: export_tables_append)
  then show ?thesis
    by (simp add: export_table_published[OF look assms(3-6)] Let_def)
qed

lemmas evaluate_catalog = TABLES_def SCHEMAS_def schema_of_def

lemma published_frame_lines:
  \<open>export_lines strict_kernel (cast_types strict_kernel (clean_dataframe published_frame)
       (schema_of SCHEMAS (ascii ''dashboard_published_data''))) =
     (None, [ascii ''{"id": 7}''])\<close>
  by (simp add: published_frame_def clean_dataframe_def select_dtypes_object_bool_def
      evaluate_catalog evaluate_cast evaluate_frame evaluate_export evaluate_text)

theorem failure_isolation_witness:
  \<open>distinct (map fst TABLES)
   \<and> TABLES = [(ascii ''dashboard_data'', ascii ''dashboard_data/'')]
       @ (ascii ''dashboard_published_data'', ascii ''dashboard_published_data/'') # []
   \<and> database fetch_fault_env (ascii ''dashboard_data'') =
       Inl (LibraryError (ascii ''connection refused''))
   \<and> database fetch_fault_env (ascii ''dashboard_published_data'') = Inr published_frame
   \<and> \<not> empty_frame published_frame
   \<and> (\<forall>c. fault fetch_fault_env (ascii ''dashboard_published_data'') c = None)
   \<and> main fetch_fault_env empty_world =
       \<lparr>files = Map.empty,
        bucket = [ascii ''dashboard_published_data/dashboard_published_data_20240102_030405.json''
                    \<mapsto> ascii ''{"id": 7}'' @ [10]],
        console = [CleaningBucket, BucketEmpty,
                   Exporting (ascii ''dashboard_data''),
                   TableError (ascii ''dashboard_data'') (LibraryError (ascii ''connection refused'')),
                   Exporting (ascii ''dashboard_published_data''),
                   Uploaded (ascii ''dashboard_published_data'')
                     (ascii ''dashboard_published_data/dashboard_published_data_20240102_030405.json'')]\<rparr>\<close>
proof -
  have h1: "distinct (map fst TABLES)"
    by (simp add: TABLES_def ascii_def)
  have h2: "TABLES = [(ascii ''dashboard_data'', ascii ''dashboard_data/'')]
       @ (ascii ''dashboard_published_data'', ascii ''dashboard_published_data/'') # []"
    by (simp add: TABLES_def)
  have h0: "database fetch_fault_env (ascii ''dashboard_data'') =
       Inl (LibraryError (ascii ''connection refused''))"
    by (simp add: fetch_fault_env_def)
  have h3: "database fetch_fault_env (ascii ''dashboard_published_data'') = Inr published_frame"
    by (simp add: fetch_fault_env_def ascii_def)
  have h4: "\<not> empty_frame published_frame"
    by (simp add: empty_frame_def published_frame_def)
  have h5: "\<forall>c. fault fetch_fault_env (ascii ''dashboard_published_data'') c = None"
    by (simp add: fetch_fault_env_def)
  have h6: \<open>export_lines (lib fetch_fault_env) (cast_types (lib fetch_fault_env) (clean_dataframe published_frame)
       (schema_of SCHEMAS (ascii ''dashboard_published_data''))) = (None, [ascii ''{"id": 7}''])\<close>
    using published_frame_lines by (simp add: fetch_fault_env_def)
  have clear: "limpiar_bucket fetch_fault_env empty_world =
        \<lparr>files = Map.empty, bucket = Map.empty, console = [CleaningBucket, BucketEmpty]\<rparr>"
    by (simp add: limpiar_bucket_def fetch_fault_env_def empty_world_def print_def)
  have stamp: "s3_key (ascii ''dashboard_published_data/'') (ascii ''dashboard_published_data'')
                 (now fetch_fault_env (ascii ''dashboard_published_data'')) =
               ascii ''dashboard_published_data/dashboard_published_data_20240102_030405.json''"
    by (simp add: s3_key_def strftime_compact_def fetch_fault_env_def evaluate_text)
  have \<open>main fetch_fault_env empty_world =
       \<lparr>files = Map.empty,
        bucket = [ascii ''dashboard_published_data/dashboard_published_data_20240102_030405.json''
                    \<mapsto> ascii ''{"id": 7}'' @ [10]],
        console = [CleaningBucket, BucketEmpty,
                   Exporting (ascii ''dashboard_data''),
                   TableError (ascii ''dashboard_data'') (LibraryError (ascii ''connection refused'')),
                   Exporting (ascii ''dashboard_published_data''),
                   Uploaded (ascii ''dashboard_published_data'')
                     (ascii ''dashboard_published_data/dashboard_published_data_20240102_030405.json'')]\<rparr>\<close>
    unfolding main_def failure_isolation [OF h1 h2 h3 h4 h5 h6] clear stamp
    by (simp add: export_table_fetch_error[OF h0] file_text_def)
  with h1 h2 h0 h3 h4 h5 show ?thesis by blast
qed

text \<open>
  C8 at two runs. In the first the construction of the storage client raises: each table
  is serialized to its temporary file, \<open>subir_a_s3_json\<close> raises before its \<open>try\<close>, the
  exception is caught at the table, and both temporary files are still there at the end
  of the run. In the second nothing raises in a library, but the first table has a
  timestamp column outside its schema: \<open>json.dumps\<close> raises on the first row, after the
  temporary file was created, and the file is still there at the end of the run.
\<close>

theorem temporary_files_remain:
  \<open>files (main client_fault_env empty_world) (ascii ''dashboard_data.json'') =
     Some (ascii ''{"id": 7}'' @ [10])
   \<and> files (main client_fault_env empty_world) (ascii ''dashboard_published_data.json'') =
     Some (ascii ''{"id": 7}'' @ [10])
   \<and> bucket (main client_fault_env empty_world) = Map.empty
   \<and> files (main timestamp_env empty_world) (ascii ''dashboard_data.json'') = Some []\<close>
proof -
  have lines: \<open>\<And>table. table = ascii ''dashboard_data'' \<or> table = ascii ''dashboard_published_data'' \<Longrightarrow>
      export_lines strict_kernel (cast_types strict_kernel (clean_dataframe published_frame)
        (schema_of SCHEMAS table)) = (None, [ascii ''{"id": 7}''])\<close>
    by (auto simp add: published_frame_def clean_dataframe_def select_dtypes_object_bool_def
        evaluate_catalog evaluate_cast evaluate_frame evaluate_export evaluate_text)
  have body: \<open>\<And>table w. table = ascii ''dashboard_data'' \<or> table = ascii ''dashboard_published_data'' \<Longrightarrow>
      export_table client_fault_env TABLES SCHEMAS table w =
        w\<lparr>files := (files w)(table @ ascii ''.json'' \<mapsto> ascii ''{"id": 7}'' @ [10]),
          console := console w @ [Exporting table,
            TableError table (LibraryError (ascii ''invalid region''))]\<rparr>\<close>
    using lines
    by (simp add: export_table_def table_body_def export_to_ndjson_def subir_a_s3_json_def
        print_def Let_def client_fault_env_def empty_frame_def published_frame_def file_text_def)
  have clear: "limpiar_bucket client_fault_env empty_world =
        \<lparr>files = Map.empty, bucket = Map.empty,
         console = [CleaningBucket, BucketError (LibraryError (ascii ''invalid region''))]\<rparr>"
    by (simp add: limpiar_bucket_def client_fault_env_def empty_world_def print_def)
  have "main client_fault_env empty_world =
        export_table client_fault_env TABLES SCHEMAS (ascii ''dashboard_published_data'')
          (export_table client_fault_env TABLES SCHEMAS (ascii ''dashboard_data'')
             (limpiar_bucket client_fault_env empty_world))"
    unfolding main_def run_def by (rule export_tables_two[OF TABLES_def])
  then have client: \<open>files (main client_fault_env empty_world) (ascii ''dashboard_data.json'') =
       Some (ascii ''{"id": 7}'' @ [10])
     \<and> files (main client_fault_env empty_world) (ascii ''dashboard_published_data.json'') =
       Some (ascii ''{"id": 7}'' @ [10])
     \<and> bucket (main client_fault_env empty_world) = Map.empty\<close>
    unfolding clear by (simp add: body) (simp add: ascii_def)
  have raised: "export_lines strict_kernel (cast_types strict_kernel (clean_dataframe timestamp_frame)
        (schema_of SCHEMAS (ascii ''dashboard_data''))) = (Some TypeError, [])"
    by (simp add: timestamp_frame_def clean_dataframe_def select_dtypes_object_bool_def
        evaluate_catalog evaluate_cast evaluate_frame evaluate_export evaluate_text)
  have first: "\<And>w. export_table timestamp_env TABLES SCHEMAS (ascii ''dashboard_data'') w =
        w\<lparr>files := (files w)(ascii ''dashboard_data.json'' \<mapsto> []),
          console := console w @ [Exporting (ascii ''dashboard_data''),
            TableError (ascii ''dashboard_data'') TypeError]\<rparr>"
    using raised
    by (simp add: export_table_def table_body_def export_to_ndjson_def print_def Let_def
        timestamp_env_def empty_frame_def timestamp_frame_def file_text_def)
       (simp add: ascii_def)
  have t1: "map_of TABLES (ascii ''dashboard_published_data'') = Some (ascii ''dashboard_published_data/'')"
    by (simp add: TABLES_def ascii_def)
  have t2: "database timestamp_env (ascii ''dashboard_published_data'') = Inr published_frame"
    by (simp add: timestamp_env_def ascii_def)
  have t3: "\<not> empty_frame published_frame"
    by (simp add: empty_frame_def published_frame_def)
  have t4: "\<forall>c. fault timestamp_env (ascii ''dashboard_published_data'') c = None"
    by (simp add: timestamp_env_def)
  have t5: \<open>export_lines (lib timestamp_env) (cast_types (lib timestamp_env) (clean_dataframe published_frame)
            (schema_of SCHEMAS (ascii ''dashboard_published_data''))) = (None, [ascii ''{"id": 7}''])\<close>
    using published_frame_lines by (simp add: timestamp_env_def)
  have second: "\<And>w. files (export_table timestamp_env TABLES SCHEMAS
                    (ascii ''dashboard_published_data'') w) =
                 (files w)(ascii ''dashboard_published_data'' @ ascii ''.json'' := None)"
    by (simp add: export_table_published[OF t1 t2 t3 t4 t5])
  have run: "main timestamp_env empty_world =
        export_table timestamp_env TABLES SCHEMAS (ascii ''dashboard_published_data'')
          (export_table timestamp_env TABLES SCHEMAS (ascii ''dashboard_data'')
             (limpiar_bucket timestamp_env empty_world))"
    unfolding main_def run_def by (rule export_tables_two[OF TABLES_def])
  have "files (main timestamp_env empty_world) (ascii ''dashboard_data.json'') = Some []"
    by (simp add: run second first) (simp add: ascii_def)
  with client show ?thesis by blast
qed

section \<open>The key of a published object\<close>

lemma strftime_compact_spec:
  assumes "clock_time t"
  shows "strftime_compact t = spec_stamp t"
proof -
  from assms have y: "1000 \<le> year t" "year t < 10000" and m: "month t < 100" and d: "day t < 100"
    and h: "hour t < 100" "minute t < 100" "second t < 100"
    using days_in_month_le[of "year t" "month t"] by (auto simp: clock_time_def)
  have y3: "year t div 10 div 10 div 10 = year t div 1000 mod 10"
    and y2: "year t div 10 div 10 = year t div 100"
    using y by (simp_all add: div_mult2_eq[symmetric])
  show ?thesis
    using y m d h
    by (simp add: strftime_compact_def spec_stamp_def zero_pad_2 zero_pad_4 two_digits_of_def
        four_digits_of_def y3 y2 ascii_def)
qed

text \<open>
  C9. When \<open>subir_a_s3_json\<close> uploads the file of a table of the catalog (the client is
  made, the upload raises nothing, the file is there), the object lies in the bucket under
  the key \<open>folder + table + "_" + t + ".json"\<close>, where \<open>folder\<close> is the prefix of the table
  in the catalog and \<open>t\<close> is the time of the clock at the call (a year of four
  digits), written \<open>YYYYMMDD_HHMMSS\<close>; the same key is reported on the console.
\<close>

theorem publish_key:
  assumes "map_of tables table = Some folder"
    and "fault E table Boto3Client = None" and "fault E table UploadFile = None"
    and "files w filename = Some text"
    and "clock_time (now E table)"
  shows "subir_a_s3_json E tables filename table w =
         (None,
          w\<lparr>bucket := (bucket w)
                (folder @ table @ ascii ''_'' @ spec_stamp (now E table) @ ascii ''.json'' \<mapsto> text),
            console := console w @
                [Uploaded table
                   (folder @ table @ ascii ''_'' @ spec_stamp (now E table) @ ascii ''.json'')]\<rparr>)"
  using assms(1-4)
  by (simp add: subir_a_s3_json_def s3_key_def print_def Let_def strftime_compact_spec[OF assms(5)])

theorem publish_key_witness:
  "map_of TABLES (ascii ''dashboard_data'') = Some (ascii ''dashboard_data/'')
   \<and> fault fetch_fault_env (ascii ''dashboard_data'') Boto3Client = None
   \<and> fault fetch_fault_env (ascii ''dashboard_data'') UploadFile = None
   \<and> files (empty_world\<lparr>files := [ascii ''dashboard_data.json'' \<mapsto> ascii ''{}'' @ [10]]\<rparr>)
        (ascii ''dashboard_data.json'') = Some (ascii ''{}'' @ [10])
   \<and> clock_time (now fetch_fault_env (ascii ''dashboard_data''))
   \<and> subir_a_s3_json fetch_fault_env TABLES (ascii ''dashboard_data.json'') (ascii ''dashboard_data'')
        (empty_world\<lparr>files := [ascii ''dashboard_data.json'' \<mapsto> ascii ''{}'' @ [10]]\<rparr>) =
       (None,
        \<lparr>files = [ascii ''dashboard_data.json'' \<mapsto> ascii ''{}'' @ [10]],
         bucket = [ascii ''dashboard_data/dashboard_data_20240102_030405.json'' \<mapsto> ascii ''{}'' @ [10]],
         console = [Uploaded (ascii ''dashboard_data'')
                      (ascii ''dashboard_data/dashboard_data_20240102_030405.json'')]\<rparr>)"
proof -
  let ?w = "empty_world\<lparr>files := [ascii ''dashboard_data.json'' \<mapsto> ascii ''{}'' @ [10]]\<rparr>"
  have h1: "map_of TABLES (ascii ''dashboard_data'') = Some (ascii ''dashboard_data/'')"
    by (simp add: TABLES_def)
  have h2: "fault fetch_fault_env (ascii ''dashboard_data'') Boto3Client = None"
    and h3: "fault fetch_fault_env (ascii ''dashboard_data'') UploadFile = None"
    by (simp_all add: fetch_fault_env_def)
  have h4: "files ?w (ascii ''dashboard_data.json'') = Some (ascii ''{}'' @ [10])"
    by simp
  have h5: "clock_time (now fetch_fault_env (ascii ''dashboard_data''))"
    by (simp add: fetch_fault_env_def clock_time_def days_in_month_def)
  have stamp: "spec_stamp (now fetch_fault_env (ascii ''dashboard_data'')) = ascii ''20240102_030405''"
    by (simp add: fetch_fault_env_def spec_stamp_def two_digits_of_def four_digits_of_def ascii_def)
  have "subir_a_s3_json fetch_fault_env TABLES (ascii ''dashboard_data.json'') (ascii ''dashboard_data'') ?w =
       (None,
        \<lparr>files = [ascii ''dashboard_data.json'' \<mapsto> ascii ''{}'' @ [10]],
         bucket = [ascii ''dashboard_data/dashboard_data_20240102_030405.json'' \<mapsto> ascii ''{}'' @ [10]],
         console = [Uploaded (ascii ''dashboard_data'')
                      (ascii ''dashboard_data/dashboard_data_20240102_030405.json'')]\<rparr>)"
    unfolding publish_key [OF h1 h2 h3 h4 h5] stamp
    by (simp add: empty_world_def ascii_def)
  with h1 h2 h3 h4 h5 show ?thesis by blast
qed

section \<open>Sanitizing and casting in place\<close>




section \<open>What does hold of the serializer and of the cleanup\<close>

lemma write_rows_count:
  "write_rows rs written = (None, out) \<Longrightarrow> length out = length written + length rs"
proof (induction rs arbitrary: written)
  case Nil
  then show ?case by simp
next
  case (Cons r rs)
  then show ?case by (cases r) auto
qed

text \<open>When no row raises, a frame of \<open>N\<close> rows yields \<open>N\<close> lines; no row, no line.\<close>

lemma export_lines_count: "export_lines k df = (None, ls) \<Longrightarrow> length ls = nrows df"
  by (auto simp: export_lines_def render_rows_def dest: write_rows_count)

lemma export_lines_no_row: "nrows df = 0 \<Longrightarrow> export_lines k df = (None, [])"
  by (simp add: export_lines_def render_rows_def)

lemma file_text_no_line: "file_text [] = []"
  by (simp add: file_text_def)

text \<open>
  An exception of the upload itself is caught inside \<open>subir_a_s3_json\<close>: the temporary
  file is removed then.
\<close>

lemma upload_error_cleans_up:
  assumes "map_of tables B = Some folder"
    and "database E B = Inr df" and "\<not> empty_frame df"
    and "fault E B CleanDataframe = None" and "fault E B CastTypes = None"
    and "fault E B OpenFile = None" and "fault E B Boto3Client = None"
    and "fault E B UploadFile = Some e" and "fault E B OsRemove = None"
    and "export_lines (lib E) (cast_types (lib E) (clean_dataframe df) (schema_of schemas B)) = (None, written)"
  shows "export_table E tables schemas B w =
         w\<lparr>files := (files w)(B @ ascii ''.json'' := None),
           console := console w @ [Exporting B, UploadError B e]\<rparr>"
  using assms
  by (simp add: export_table_def table_body_def export_to_ndjson_def subir_a_s3_json_def
      os_remove_def print_def Let_def)

end
